theory Spec2Isabelle
  imports Complex_Main "HOL-Library.Word" "HOL-Library.Multiset"
begin

unbundle bit_operations_syntax

section \<open>Conventions of the embedding\<close>

text \<open>
  The C++ of \<^verbatim>\<open>StudioModelEntity.cpp\<close> and \<^verbatim>\<open>StudioModelRenderer.cpp\<close> is embedded
  function by function; member variables become record fields and every member function
  takes the object and returns the updated one.

  \<^item> \<^verbatim>\<open>float\<close> and \<^verbatim>\<open>double\<close> values are \<open>real\<close>. Where the source narrows a
    \<^verbatim>\<open>double\<close> expression to \<^verbatim>\<open>float\<close> with \<^verbatim>\<open>static_cast<float>\<close>, the rounding to
    single precision is modelled (\<open>static_cast_float\<close>). The other arithmetic is exact
    in the model and rounded in the source; the theorems about it are stated for the
    inputs on which the single precision computation is exact, or state what rounding
    to nearest cannot change (the order of two values, the sign of a product of
    non-negative factors).
  \<^item> \<^verbatim>\<open>int\<close> values read from the model are \<open>int\<close>; where the source converts a float
    to \<^verbatim>\<open>int\<close> or multiplies two computed ints, a result outside the 32-bit range is
    undefined in C++ and is a \<open>fault\<close> here.
  \<^item> a null pointer dereference, an array access outside its bounds and a read past
    the end of a triangle command stream are undefined in C++ and are faults here.
  \<^item> the wall clock \<^verbatim>\<open>GetContext()->Time->GetTime()\<close> is the parameter \<open>now\<close>.
\<close>

datatype fault =
  NullDereference | OutOfBounds | UndefinedConversion | SignedOverflow | AssertionFailed

definition INT_MIN :: int where
  "INT_MIN = - 2147483648"

definition INT_MAX :: int where
  "INT_MAX = 2147483647"

text \<open>The conversion \<^verbatim>\<open>(int)x\<close> of a floating point value truncates towards zero.\<close>

definition float_to_int :: "real \<Rightarrow> fault + int" where
  "float_to_int x =
     (let t = (if 0 \<le> x then \<lfloor>x\<rfloor> else \<lceil>x\<rceil>)
      in if INT_MIN \<le> t \<and> t \<le> INT_MAX then Inr t else Inl UndefinedConversion)"

definition int_mul :: "int \<Rightarrow> int \<Rightarrow> fault + int" where
  "int_mul a b =
     (if INT_MIN \<le> a * b \<and> a * b \<le> INT_MAX then Inr (a * b) else Inl SignedOverflow)"

text \<open>
  The conversion \<^verbatim>\<open>static_cast<float>(x)\<close> of a \<^verbatim>\<open>double\<close>: the nearest single precision
  value, a tie going to the even significand. A single precision value is a multiple of
  \<open>2^(e - 23)\<close>, where \<open>2^e\<close> is the largest power of two not above its magnitude and
  \<open>e\<close> is at least \<open>-126\<close>. Values beyond the single precision range, for which the
  conversion is undefined, do not occur where the embedded code converts.
\<close>

definition round_ties_even :: "real \<Rightarrow> int" where
  "round_ties_even y =
     (let n = \<lfloor>y\<rfloor>; r = y - real_of_int n
      in if r < 1 / 2 then n else if 1 / 2 < r then n + 1 else if even n then n else n + 1)"

definition float_exponent :: "real \<Rightarrow> int" where
  "float_exponent x = max \<lfloor>log 2 \<bar>x\<bar>\<rfloor> (- 126)"

definition static_cast_float :: "real \<Rightarrow> real" where
  "static_cast_float x =
     (if x = 0 then 0
      else
        let u = 2 powr (real_of_int (float_exponent x) - 23)
        in u * real_of_int (round_ties_even (x / u)))"

text \<open>\<^verbatim>\<open>std::clamp(v, lo, hi)\<close> on ints.\<close>

definition clamp :: "int \<Rightarrow> int \<Rightarrow> int \<Rightarrow> int" where
  "clamp v lo hi = (if v < lo then lo else if hi < v then hi else v)"

section \<open>Constants of the studio model format\<close>

text \<open>
  Modelled from the spec: the header \<^verbatim>\<open>StudioModelFileFormat.hpp\<close> that declares these
  constants is not among the sources. The spec speaks of type flags for X/Y/Z rotation,
  a looping flag, client-only events, a small fixed set of controller channels plus a
  reserved mouth channel, and up to two blend channels; the values are those of the
  GoldSource studio model format.
\<close>

definition STUDIO_XR :: int where "STUDIO_XR = 8"
definition STUDIO_YR :: int where "STUDIO_YR = 16"
definition STUDIO_ZR :: int where "STUDIO_ZR = 32"
definition STUDIO_LOOPING :: int where "STUDIO_LOOPING = 1"
definition EVENT_CLIENT :: int where "EVENT_CLIENT = 5000"
definition STUDIO_MAX_CONTROLLERS :: int where "STUDIO_MAX_CONTROLLERS = 4"
definition STUDIO_TOTAL_CONTROLLERS :: int where "STUDIO_TOTAL_CONTROLLERS = 5"
definition STUDIO_MOUTH_CONTROLLER :: int where "STUDIO_MOUTH_CONTROLLER = 4"
definition STUDIO_MAX_BLENDERS :: int where "STUDIO_MAX_BLENDERS = 2"
definition SequenceBlendXIndex :: int where "SequenceBlendXIndex = 0"
definition SequenceBlendYIndex :: int where "SequenceBlendYIndex = 1"
definition EF_NOSHADELIGHT :: int where "EF_NOSHADELIGHT = 256"
definition MAXSTUDIOBONES :: int where "MAXSTUDIOBONES = 128"
definition MAXSTUDIOVERTS :: int where "MAXSTUDIOVERTS = 2048"

section \<open>Model data\<close>

record SequenceEvent =
  Frame :: int
  EventId :: int
  Options :: string

record SequenceBlendData =
  bd_Type :: int
  bd_Start :: real
  bd_End :: real

record Sequence =
  NumFrames :: int
  FPS :: real
  Flags :: int
  SortedEvents :: "SequenceEvent list"
  BlendData :: "nat \<Rightarrow> SequenceBlendData"

record BoneController =
  bc_Index :: int
  bc_Type :: int
  bc_Start :: real
  bc_End :: real

text \<open>
  Of \<^verbatim>\<open>EditableStudioModel\<close> the fields the embedded functions read; \<open>ModelFlags\<close> is
  its member \<^verbatim>\<open>Flags\<close>. A \<^verbatim>\<open>Model\<close> is the sub-model that \<^verbatim>\<open>SetupModel\<close> selects.
\<close>

record Mesh =
  NumTriangles :: int
  Triangles :: "int list"

record Model =
  Meshes :: "Mesh list"

record EditableStudioModel =
  Sequences :: "Sequence list"
  BoneControllers :: "BoneController list"
  ModelFlags :: int

section \<open>The entity: pose state\<close>

datatype StudioLoopingMode = AlwaysLoop | NeverLoop | UseSequenceSetting

datatype BlenderKind = StandardBlender | CounterStrikeBlender

record AnimEvent =
  event_id :: int
  event_options :: string

text \<open>
  The fixed-size arrays \<^verbatim>\<open>_controller\<close>, \<^verbatim>\<open>_controllerValues\<close>, \<^verbatim>\<open>_blending\<close>,
  \<^verbatim>\<open>_blendingValues\<close> and a sequence's \<^verbatim>\<open>BlendData\<close> are functions from the index;
  every access checks the index against the array's size.
\<close>

record StudioModelEntity =
  editableModel :: "EditableStudioModel option"
  sequence :: int
  frame :: real
  lastEventCheck :: real
  animTime :: real
  frameRate :: real
  loopingMode :: StudioLoopingMode
  controller :: "nat \<Rightarrow> 8 word"
  controllerValues :: "nat \<Rightarrow> real"
  mouth :: "8 word"
  mouthValue :: real
  blending :: "nat \<Rightarrow> 8 word"
  blendingValues :: "nat \<Rightarrow> real"
  blender :: BlenderKind

subsection \<open>AdvanceFrame and SetFrame\<close>

text \<open>
  The wrap used by both functions:
  \<^verbatim>\<open>_frame -= (int)(_frame / (NumFrames - 1)) * (NumFrames - 1)\<close>, with \<open>n1\<close> for
  \<^verbatim>\<open>NumFrames - 1\<close>. The source divides and subtracts in single precision. For a single
  precision frame of magnitude below \<open>2^24\<close> and \<open>n1\<close> from 1 to \<open>2^24\<close> the quotient
  truncates to the same integer and the product and the difference are single precision
  values, so that the source computes the value given here; for larger frames it need
  not (for the frame 30408790 and \<open>n1 = 29\<close> the quotient rounds up to 1048579 and the
  source leaves -2). The theorems on the wrap stay below \<open>2^24\<close>.
\<close>

definition wrap_frame :: "real \<Rightarrow> int \<Rightarrow> fault + real" where
  "wrap_frame f n1 =
     (case float_to_int (f / real_of_int n1) of
        Inl e \<Rightarrow> Inl e
      | Inr q \<Rightarrow>
          (case int_mul q n1 of
             Inl e \<Rightarrow> Inl e
           | Inr p \<Rightarrow> Inr (f - real_of_int p)))"

definition shouldLoop :: "StudioLoopingMode \<Rightarrow> Sequence \<Rightarrow> bool" where
  "shouldLoop mode sd =
     (case mode of
        AlwaysLoop \<Rightarrow> True
      | NeverLoop \<Rightarrow> False
      | UseSequenceSetting \<Rightarrow> (Flags sd AND STUDIO_LOOPING) \<noteq> 0)"

text \<open>
  Lines 78 to 96 of \<^verbatim>\<open>AdvanceFrame\<close>: the elapsed time when none is given, zero on the
  first call, and the clamp to \<open>maximum\<close>. The early return for an elapsed time of at
  most a millisecond is the test \<open>skipsFrame\<close>.
\<close>

definition skipsFrame :: "real \<Rightarrow> StudioModelEntity \<Rightarrow> real \<Rightarrow> bool" where
  "skipsFrame now s deltaTime = (deltaTime = 0 \<and> now - animTime s \<le> 1 / 1000)"

definition effectiveDeltaTime :: "real \<Rightarrow> StudioModelEntity \<Rightarrow> real \<Rightarrow> real \<Rightarrow> real" where
  "effectiveDeltaTime now s deltaTime maximum =
     (let d1 = (if deltaTime = 0 then now - animTime s else deltaTime);
          d2 = (if animTime s = 0 then 0 else d1)
      in if maximum = - 1 then d2 else min d2 maximum)"

definition AdvanceFrame ::
  "real \<Rightarrow> StudioModelEntity \<Rightarrow> real \<Rightarrow> real \<Rightarrow> fault + (StudioModelEntity \<times> real)" where
  "AdvanceFrame now s deltaTime maximum =
     (case editableModel s of
        None \<Rightarrow> Inr (s, 0)
      | Some m \<Rightarrow>
          if sequence s < 0 \<or> int (length (Sequences m)) \<le> sequence s then Inr (s, 0)
          else if skipsFrame now s deltaTime then Inr (s, 0)
          else
            let sd = Sequences m ! nat (sequence s);
                dt = effectiveDeltaTime now s deltaTime maximum;
                oldFrame = frame s;
                loop = shouldLoop (loopingMode s) sd;
                increment = dt * FPS sd * frameRate s;
                frame1 = (if frame s < real_of_int (NumFrames sd - 1) \<or> loop
                          then frame s + increment else frame s)
            in if NumFrames sd \<le> 1 then Inr (s\<lparr>frame := 0, animTime := now\<rparr>, dt)
               else
                 (case (if loop then wrap_frame frame1 (NumFrames sd - 1)
                        else if real_of_int (NumFrames sd - 1) \<le> frame1
                        then Inr (real_of_int (NumFrames sd - 1))
                        else Inr frame1) of
                    Inl e \<Rightarrow> Inl e
                  | Inr frame2 \<Rightarrow>
                      Inr (s\<lparr>frame := frame2,
                             lastEventCheck :=
                               (if frame2 < oldFrame then frame2 - increment
                                else lastEventCheck s),
                             animTime := now\<rparr>, dt)))"

definition SetFrame :: "real \<Rightarrow> StudioModelEntity \<Rightarrow> real \<Rightarrow> fault + StudioModelEntity" where
  "SetFrame now s f =
     (if f = - 1 then Inr s
      else
        case editableModel s of
          None \<Rightarrow> Inr s
        | Some m \<Rightarrow>
            if sequence s < 0 \<or> int (length (Sequences m)) \<le> sequence s then Inr s
            else
              let sd = Sequences m ! nat (sequence s)
              in if NumFrames sd \<le> 1 then Inr (s\<lparr>frame := 0, animTime := now\<rparr>)
                 else
                   (case wrap_frame f (NumFrames sd - 1) of
                      Inl e \<Rightarrow> Inl e
                    | Inr f' \<Rightarrow> Inr (s\<lparr>frame := f', animTime := now\<rparr>)))"

subsection \<open>SetSequence and GetNumFrames\<close>

text \<open>
  Neither function tests \<^verbatim>\<open>_editableModel\<close> before dereferencing it. In
  \<^verbatim>\<open>GetNumFrames\<close> the test \<^verbatim>\<open>_sequence < 0\<close> comes first, so a negative sequence returns
  0 without a dereference.
\<close>

definition GetNumFrames :: "StudioModelEntity \<Rightarrow> fault + int" where
  "GetNumFrames s =
     (if sequence s < 0 then Inr 0
      else
        case editableModel s of
          None \<Rightarrow> Inl NullDereference
        | Some m \<Rightarrow>
            if int (length (Sequences m)) \<le> sequence s then Inr 0
            else Inr (NumFrames (Sequences m ! nat (sequence s))))"

definition SetSequence :: "StudioModelEntity \<Rightarrow> int \<Rightarrow> fault + StudioModelEntity" where
  "SetSequence s sequence0 =
     (case editableModel s of
        None \<Rightarrow> Inl NullDereference
      | Some m \<Rightarrow>
          if Sequences m = []
          then Inr (s\<lparr>sequence := - 1, frame := 0, lastEventCheck := 0\<rparr>)
          else if sequence0 \<noteq> - 1 \<and>
                  (sequence0 < - 1 \<or> int (length (Sequences m)) \<le> sequence0)
          then Inr s
          else Inr (s\<lparr>sequence := sequence0, frame := 0, lastEventCheck := 0\<rparr>))"

subsection \<open>Animation events\<close>

text \<open>
  The test of lines 184 to 196 of \<^verbatim>\<open>GetAnimationEvent\<close>: a candidate is skipped when it
  is a client event and client events are not allowed; otherwise it fires when its
  frame lies in the window (\<open>inWindow\<close>), or by the clause for sequences flagged as
  looping (\<open>loopClause\<close>).
\<close>

definition inWindow :: "real \<Rightarrow> real \<Rightarrow> SequenceEvent \<Rightarrow> bool" where
  "inWindow start end' candidate =
     (start \<le> real_of_int (Frame candidate) \<and> real_of_int (Frame candidate) < end')"

definition loopClause :: "Sequence \<Rightarrow> real \<Rightarrow> SequenceEvent \<Rightarrow> bool" where
  "loopClause sd end' candidate =
     ((Flags sd AND STUDIO_LOOPING) \<noteq> 0 \<and>
      real_of_int (NumFrames sd - 1) \<le> end' \<and>
      real_of_int (Frame candidate) < end' - real_of_int (NumFrames sd) + 1)"

definition candidateFires :: "Sequence \<Rightarrow> real \<Rightarrow> real \<Rightarrow> bool \<Rightarrow> SequenceEvent \<Rightarrow> bool" where
  "candidateFires sd start end' allowClientEvents candidate =
     (if \<not> allowClientEvents \<and> EVENT_CLIENT \<le> EventId candidate then False
      else inWindow start end' candidate \<or> loopClause sd end' candidate)"

definition toAnimEvent :: "SequenceEvent \<Rightarrow> AnimEvent" where
  "toAnimEvent candidate = \<lparr>event_id = EventId candidate, event_options = Options candidate\<rparr>"

text \<open>
  The \<^verbatim>\<open>for\<close> loop of \<^verbatim>\<open>GetAnimationEvent\<close>. The comparison of the \<^verbatim>\<open>int\<close> index with
  the unsigned size converts a negative index to a large unsigned value, so a negative
  index ends the scan as an index past the end does. The out parameter \<open>event\<close> is
  written only when a candidate fires.
\<close>

function GetAnimationEvent_scan ::
  "Sequence \<Rightarrow> AnimEvent \<Rightarrow> real \<Rightarrow> real \<Rightarrow> int \<Rightarrow> bool \<Rightarrow> int \<times> AnimEvent" where
  "GetAnimationEvent_scan sd event start end' index allowClientEvents =
     (if index < 0 \<or> int (length (SortedEvents sd)) \<le> index then (0, event)
      else
        let candidate = SortedEvents sd ! nat index
        in if candidateFires sd start end' allowClientEvents candidate
           then (index + 1, toAnimEvent candidate)
           else GetAnimationEvent_scan sd event start end' (index + 1) allowClientEvents)"
  by pat_completeness auto
termination
  by (relation "measure (\<lambda>(sd, event, start, end', index, allowClientEvents).
        nat (int (length (SortedEvents sd)) - index))") auto

declare GetAnimationEvent_scan.simps [simp del]

definition GetAnimationEvent ::
  "StudioModelEntity \<Rightarrow> AnimEvent \<Rightarrow> real \<Rightarrow> real \<Rightarrow> int \<Rightarrow> bool \<Rightarrow> int \<times> AnimEvent" where
  "GetAnimationEvent s event start end' index allowClientEvents =
     (case editableModel s of
        None \<Rightarrow> (0, event)
      | Some m \<Rightarrow>
          if sequence s < 0 \<or> int (length (Sequences m)) \<le> sequence s then (0, event)
          else
            let sd = Sequences m ! nat (sequence s)
            in if index < 0 \<or> int (length (SortedEvents sd)) \<le> index then (0, event)
               else if NumFrames sd \<le> 1
               then GetAnimationEvent_scan sd event 0 1 index allowClientEvents
               else GetAnimationEvent_scan sd event start end' index allowClientEvents)"

text \<open>The number of events of the current sequence (zero without model or sequence).\<close>

definition currentEventCount :: "StudioModelEntity \<Rightarrow> int" where
  "currentEventCount s =
     (case editableModel s of
        None \<Rightarrow> 0
      | Some m \<Rightarrow>
          if sequence s < 0 \<or> int (length (Sequences m)) \<le> sequence s then 0
          else int (length (SortedEvents (Sequences m ! nat (sequence s)))))"

text \<open>
  The \<^verbatim>\<open>while\<close> loop of \<^verbatim>\<open>DispatchAnimEvents\<close>. \<^verbatim>\<open>HandleAnimEvent\<close> has an empty body;
  the events it is called with are collected in \<open>handled\<close>, in call order.
\<close>

function DispatchAnimEvents_loop ::
  "StudioModelEntity \<Rightarrow> real \<Rightarrow> real \<Rightarrow> bool \<Rightarrow> AnimEvent \<Rightarrow> int \<Rightarrow> AnimEvent list
     \<Rightarrow> AnimEvent list" where
  "DispatchAnimEvents_loop s start end' allowClientEvents event index handled =
     (case GetAnimationEvent s event start end' index allowClientEvents of
        (index', event') \<Rightarrow>
          if index' \<noteq> 0
          then DispatchAnimEvents_loop s start end' allowClientEvents event' index'
                 (handled @ [event'])
          else handled)"
  by pat_completeness auto
termination
  apply (relation "measure (\<lambda>(s, start, end', allowClientEvents, event, index, handled).
        nat (currentEventCount s - index))")
   apply simp_all
  subgoal premises prems for s start end' allowClientEvents event index index' event'
  proof -
    have scan: "fst (GetAnimationEvent_scan sd ev a b i c) = 0 \<or>
        (i < fst (GetAnimationEvent_scan sd ev a b i c) \<and>
         fst (GetAnimationEvent_scan sd ev a b i c) \<le> int (length (SortedEvents sd)))"
      for sd ev a b i c
    proof (induction sd ev a b i c rule: GetAnimationEvent_scan.induct)
      case (1 sd ev a b i c)
      show ?case
      proof (cases "i < 0 \<or> int (length (SortedEvents sd)) \<le> i")
        case True
        then show ?thesis by (simp add: GetAnimationEvent_scan.simps)
      next
        case False
        show ?thesis
        proof (cases "candidateFires sd a b c (SortedEvents sd ! nat i)")
          case True
          with False show ?thesis
            by (simp add: GetAnimationEvent_scan.simps [of sd ev a b i c])
        next
          case fires: False
          with False "1.IH" have "fst (GetAnimationEvent_scan sd ev a b (i + 1) c) = 0 \<or>
              (i + 1 < fst (GetAnimationEvent_scan sd ev a b (i + 1) c) \<and>
               fst (GetAnimationEvent_scan sd ev a b (i + 1) c)
                 \<le> int (length (SortedEvents sd)))"
            by simp
          moreover have "GetAnimationEvent_scan sd ev a b i c =
              GetAnimationEvent_scan sd ev a b (i + 1) c"
            using False fires by (simp add: GetAnimationEvent_scan.simps [of sd ev a b i c])
          ultimately show ?thesis by auto
        qed
      qed
    qed
    have gae: "fst (GetAnimationEvent s event start end' index allowClientEvents) = 0 \<or>
        (index < fst (GetAnimationEvent s event start end' index allowClientEvents) \<and>
         fst (GetAnimationEvent s event start end' index allowClientEvents)
           \<le> currentEventCount s)"
    proof (cases "editableModel s")
      case None
      then show ?thesis by (simp add: GetAnimationEvent_def)
    next
      case (Some m)
      then show ?thesis
        using scan [of "Sequences m ! nat (sequence s)" event 0 1 index allowClientEvents]
          scan [of "Sequences m ! nat (sequence s)" event start end' index allowClientEvents]
        by (simp add: GetAnimationEvent_def currentEventCount_def Let_def)
    qed
    have "index' = fst (GetAnimationEvent s event start end' index allowClientEvents)"
      using prems(1) by (metis fst_conv)
    with gae prems(2) show ?thesis by simp
  qed
  done

declare DispatchAnimEvents_loop.simps [simp del]

text \<open>
  \<^verbatim>\<open>AnimEvent event;\<close> is declared without an initial value and is handed to
  \<^verbatim>\<open>HandleAnimEvent\<close> only after \<^verbatim>\<open>GetAnimationEvent\<close> has written it.
\<close>

definition uninitialisedEvent :: AnimEvent where
  "uninitialisedEvent = \<lparr>event_id = 0, event_options = []\<rparr>"

definition DispatchAnimEvents ::
  "StudioModelEntity \<Rightarrow> bool \<Rightarrow> StudioModelEntity \<times> AnimEvent list" where
  "DispatchAnimEvents s allowClientEvents =
     (case editableModel s of
        None \<Rightarrow> (s, [])
      | Some m \<Rightarrow>
          (s\<lparr>lastEventCheck := frame s\<rparr>,
           DispatchAnimEvents_loop s (lastEventCheck s) (frame s) allowClientEvents
             uninitialisedEvent 0 []))"

text \<open>
  A run of the sequencer over a series of frame windows: the frame moves to each value
  of the list in turn and events are dispatched after each move, so that every window
  starts where the previous one ended. The result lists every event handled, in order.
\<close>

fun dispatchOverFrames ::
  "bool \<Rightarrow> StudioModelEntity \<Rightarrow> real list \<Rightarrow> AnimEvent list" where
  "dispatchOverFrames allowClientEvents s [] = []"
| "dispatchOverFrames allowClientEvents s (f # fs) =
     (case DispatchAnimEvents (s\<lparr>frame := f\<rparr>) allowClientEvents of
        (s', handled) \<Rightarrow> handled @ dispatchOverFrames allowClientEvents s' fs)"

text \<open>The windows of such a run that starts with the event marker at \<open>w\<close>.\<close>

fun frameWindows :: "real \<Rightarrow> real list \<Rightarrow> (real \<times> real) list" where
  "frameWindows w [] = []"
| "frameWindows w (f # fs) = (w, f) # frameWindows f fs"

subsection \<open>Bone controllers, mouth and blending\<close>

text \<open>The test \<^verbatim>\<open>Type & (STUDIO_XR | STUDIO_YR | STUDIO_ZR)\<close>.\<close>

definition isRotational :: "int \<Rightarrow> bool" where
  "isRotational t = ((t AND (STUDIO_XR OR STUDIO_YR OR STUDIO_ZR)) \<noteq> 0)"

text \<open>
  Lines 423 to 455 of \<^verbatim>\<open>SetController\<close>: the value after the inversion, and after the
  re-centring of a range that does not wrap or the reduction of one that does. The
  reduction is computed in \<^verbatim>\<open>double\<close> and narrowed to \<^verbatim>\<open>float\<close> (lines 448 and 452).
\<close>

definition SetController_value :: "BoneController \<Rightarrow> real \<Rightarrow> fault + real" where
  "SetController_value boneController value0 =
     (if isRotational (bc_Type boneController)
      then
        let value1 = (if bc_End boneController < bc_Start boneController
                      then - value0 else value0)
        in if bc_End boneController \<le> bc_Start boneController + 359
           then
             let value2 =
                   (if (bc_Start boneController + bc_End boneController) / 2 + 180 < value1
                    then value1 - 360 else value1);
                 value3 =
                   (if value2 < (bc_Start boneController + bc_End boneController) / 2 - 180
                    then value2 + 360 else value2)
             in Inr value3
           else if 360 < value1
           then (case float_to_int (value1 / 360) of
                   Inl e \<Rightarrow> Inl e
                 | Inr k \<Rightarrow> Inr (static_cast_float (value1 - real_of_int k * 360)))
           else if value1 < 0
           then (case float_to_int (value1 / (- 360) + 1) of
                   Inl e \<Rightarrow> Inl e
                 | Inr k \<Rightarrow> Inr (static_cast_float (value1 + real_of_int k * 360)))
           else Inr value1
      else Inr value0)"

text \<open>
  Lines 457 to 460: the encoded setting. A division by a zero range gives an infinity or
  a NaN, whose conversion to \<^verbatim>\<open>int\<close> is undefined.
\<close>

definition SetController_setting :: "BoneController \<Rightarrow> real \<Rightarrow> fault + int" where
  "SetController_setting boneController value0 =
     (case SetController_value boneController value0 of
        Inl e \<Rightarrow> Inl e
      | Inr v \<Rightarrow>
          if bc_End boneController - bc_Start boneController = 0 then Inl UndefinedConversion
          else
            (case float_to_int (255 * (v - bc_Start boneController) /
                    (bc_End boneController - bc_Start boneController)) of
               Inl e \<Rightarrow> Inl e
             | Inr setting \<Rightarrow> Inr (clamp setting 0 255)))"

definition SetController ::
  "StudioModelEntity \<Rightarrow> int \<Rightarrow> real \<Rightarrow> fault + StudioModelEntity" where
  "SetController s controllerIndex value0 =
     (case editableModel s of
        None \<Rightarrow> Inr s
      | Some m \<Rightarrow>
          (case find (\<lambda>bc. bc_Index bc = controllerIndex) (BoneControllers m) of
             None \<Rightarrow> Inr s
           | Some boneController \<Rightarrow>
               if controllerIndex < 0 \<or> STUDIO_TOTAL_CONTROLLERS \<le> controllerIndex
               then Inl OutOfBounds
               else
                 (case SetController_setting boneController value0 of
                    Inl e \<Rightarrow> Inl e
                  | Inr setting \<Rightarrow>
                      if STUDIO_MAX_CONTROLLERS \<le> controllerIndex then Inl OutOfBounds
                      else
                        Inr (s\<lparr>controllerValues :=
                                 (controllerValues s)(nat controllerIndex := value0),
                               controller :=
                                 (controller s)(nat controllerIndex := word_of_int setting)\<rparr>))))"

text \<open>\<^verbatim>\<open>SetMouth\<close> repeats the code of \<^verbatim>\<open>SetController\<close>, lines 493 to 529.\<close>

definition SetMouth_value :: "BoneController \<Rightarrow> real \<Rightarrow> fault + real" where
  "SetMouth_value boneController value0 =
     (if isRotational (bc_Type boneController)
      then
        let value1 = (if bc_End boneController < bc_Start boneController
                      then - value0 else value0)
        in if bc_End boneController \<le> bc_Start boneController + 359
           then
             let value2 =
                   (if (bc_Start boneController + bc_End boneController) / 2 + 180 < value1
                    then value1 - 360 else value1);
                 value3 =
                   (if value2 < (bc_Start boneController + bc_End boneController) / 2 - 180
                    then value2 + 360 else value2)
             in Inr value3
           else if 360 < value1
           then (case float_to_int (value1 / 360) of
                   Inl e \<Rightarrow> Inl e
                 | Inr k \<Rightarrow> Inr (static_cast_float (value1 - real_of_int k * 360)))
           else if value1 < 0
           then (case float_to_int (value1 / (- 360) + 1) of
                   Inl e \<Rightarrow> Inl e
                 | Inr k \<Rightarrow> Inr (static_cast_float (value1 + real_of_int k * 360)))
           else Inr value1
      else Inr value0)"

definition SetMouth_setting :: "BoneController \<Rightarrow> real \<Rightarrow> fault + int" where
  "SetMouth_setting boneController value0 =
     (case SetMouth_value boneController value0 of
        Inl e \<Rightarrow> Inl e
      | Inr v \<Rightarrow>
          if bc_End boneController - bc_Start boneController = 0 then Inl UndefinedConversion
          else
            (case float_to_int (64 * (v - bc_Start boneController) /
                    (bc_End boneController - bc_Start boneController)) of
               Inl e \<Rightarrow> Inl e
             | Inr setting \<Rightarrow> Inr (clamp setting 0 64)))"

definition SetMouth :: "StudioModelEntity \<Rightarrow> real \<Rightarrow> fault + StudioModelEntity" where
  "SetMouth s value0 =
     (case editableModel s of
        None \<Rightarrow> Inr s
      | Some m \<Rightarrow>
          (case find (\<lambda>bc. bc_Index bc = STUDIO_MOUTH_CONTROLLER) (BoneControllers m) of
             None \<Rightarrow> Inr s
           | Some boneController \<Rightarrow>
               (case SetMouth_setting boneController value0 of
                  Inl e \<Rightarrow> Inl e
                | Inr setting \<Rightarrow>
                    Inr (s\<lparr>mouthValue := value0, mouth := word_of_int setting\<rparr>))))"

text \<open>
  \<^verbatim>\<open>StandardBlender::CalculateBlend\<close>. The result \<open>Inr None\<close> is the empty
  \<^verbatim>\<open>std::optional\<close>.
\<close>

definition StandardBlender_CalculateBlend ::
  "Sequence \<Rightarrow> int \<Rightarrow> real \<Rightarrow> fault + 8 word option" where
  "StandardBlender_CalculateBlend sequenceDescriptor blenderIndex value0 =
     (if blenderIndex < 0 \<or> STUDIO_MAX_BLENDERS \<le> blenderIndex then Inl OutOfBounds
      else
        let bd = BlendData sequenceDescriptor (nat blenderIndex)
        in if bd_Type bd = 0 then Inr None
           else
             let v =
               (if isRotational (bd_Type bd)
                then
                  let value1 = (if bd_End bd < bd_Start bd then - value0 else value0)
                  in if bd_End bd \<le> bd_Start bd + 359
                     then
                       let value2 = (if (bd_Start bd + bd_End bd) / 2 + 180 < value1
                                     then value1 - 360 else value1)
                       in if value2 < (bd_Start bd + bd_End bd) / 2 - 180
                          then value2 + 360 else value2
                     else value1
                else value0)
             in if bd_End bd - bd_Start bd = 0 then Inl UndefinedConversion
                else
                  (case float_to_int (255 * (v - bd_Start bd) / (bd_End bd - bd_Start bd)) of
                     Inl e \<Rightarrow> Inl e
                   | Inr setting \<Rightarrow> Inr (Some (word_of_int (clamp setting 0 255)))))"

text \<open>
  The conversion \<^verbatim>\<open>static_cast<std::uint8_t>(x)\<close> of a floating point value truncates and
  is undefined when the result does not fit.
\<close>

definition float_to_uint8 :: "real \<Rightarrow> fault + 8 word" where
  "float_to_uint8 x =
     (let t = (if 0 \<le> x then \<lfloor>x\<rfloor> else \<lceil>x\<rceil>)
      in if 0 \<le> t \<and> t \<le> 255 then Inr (word_of_int t) else Inl UndefinedConversion)"

definition CounterStrikeBlender_CalculateBlend ::
  "Sequence \<Rightarrow> int \<Rightarrow> real \<Rightarrow> fault + 8 word option" where
  "CounterStrikeBlender_CalculateBlend sequenceDescriptor blenderIndex value0 =
     (if blenderIndex = SequenceBlendXIndex
      then (case float_to_uint8 ((180 + value0) / 360 * 255) of
              Inl e \<Rightarrow> Inl e
            | Inr b \<Rightarrow> Inr (Some b))
      else if blenderIndex = SequenceBlendYIndex
      then (case float_to_uint8 ((45 + value0) / 90 * 255) of
              Inl e \<Rightarrow> Inl e
            | Inr b \<Rightarrow> Inr (Some b))
      else Inl AssertionFailed)"

text \<open>The virtual call \<^verbatim>\<open>_blender->CalculateBlend\<close>.\<close>

definition CalculateBlend ::
  "BlenderKind \<Rightarrow> Sequence \<Rightarrow> int \<Rightarrow> real \<Rightarrow> fault + 8 word option" where
  "CalculateBlend kind sequenceDescriptor blenderIndex value0 =
     (case kind of
        StandardBlender \<Rightarrow> StandardBlender_CalculateBlend sequenceDescriptor blenderIndex value0
      | CounterStrikeBlender \<Rightarrow>
          CounterStrikeBlender_CalculateBlend sequenceDescriptor blenderIndex value0)"

definition SetBlending ::
  "StudioModelEntity \<Rightarrow> int \<Rightarrow> real \<Rightarrow> fault + StudioModelEntity" where
  "SetBlending s blenderIndex value0 =
     (case editableModel s of
        None \<Rightarrow> Inr s
      | Some m \<Rightarrow>
          if blenderIndex < 0 \<or> STUDIO_MAX_BLENDERS \<le> blenderIndex then Inr s
          else if sequence s < 0 \<or> int (length (Sequences m)) \<le> sequence s then Inr s
          else
            (case CalculateBlend (blender s) (Sequences m ! nat (sequence s))
                    blenderIndex value0 of
               Inl e \<Rightarrow> Inl e
             | Inr None \<Rightarrow> Inr s
             | Inr (Some setting) \<Rightarrow>
                 Inr (s\<lparr>blending := (blending s)(nat blenderIndex := setting),
                        blendingValues := (blendingValues s)(nat blenderIndex := value0)\<rparr>)))"

section \<open>The renderer\<close>

subsection \<open>Vectors and matrices of the GLM library\<close>

text \<open>
  A \<^verbatim>\<open>glm::mat4\<close> is four columns; \<open>mat4_column3\<close> is \<^verbatim>\<open>m[3]\<close>. Of the library,
  \<^verbatim>\<open>glm::dot\<close>, \<^verbatim>\<open>glm::cross\<close>, \<^verbatim>\<open>glm::normalize\<close> and the product of a matrix and a
  vector are written out; \<^verbatim>\<open>glm::inverse\<close> is a parameter of \<open>Chrome\<close>.
\<close>

datatype vec2 = Vec2 real real

datatype vec3 = Vec3 (vec_x: real) (vec_y: real) (vec_z: real)

datatype vec4 = Vec4 real real real real

datatype mat4 = Mat4 vec4 vec4 vec4 vec4

fun vec3_of_vec4 :: "vec4 \<Rightarrow> vec3" where
  "vec3_of_vec4 (Vec4 a b c d) = Vec3 a b c"

fun vec4_of_vec3 :: "vec3 \<Rightarrow> real \<Rightarrow> vec4" where
  "vec4_of_vec3 (Vec3 a b c) w = Vec4 a b c w"

fun vec3_scale :: "vec3 \<Rightarrow> real \<Rightarrow> vec3" where
  "vec3_scale (Vec3 a b c) k = Vec3 (a * k) (b * k) (c * k)"

fun vec3_add :: "vec3 \<Rightarrow> vec3 \<Rightarrow> vec3" where
  "vec3_add (Vec3 a b c) (Vec3 a' b' c') = Vec3 (a + a') (b + b') (c + c')"

fun vec3_neg :: "vec3 \<Rightarrow> vec3" where
  "vec3_neg (Vec3 a b c) = Vec3 (- a) (- b) (- c)"

fun glm_dot :: "vec3 \<Rightarrow> vec3 \<Rightarrow> real" where
  "glm_dot (Vec3 a b c) (Vec3 a' b' c') = a * a' + b * b' + c * c'"

fun glm_cross :: "vec3 \<Rightarrow> vec3 \<Rightarrow> vec3" where
  "glm_cross (Vec3 a b c) (Vec3 a' b' c') =
     Vec3 (b * c' - c * b') (c * a' - a * c') (a * b' - b * a')"

definition glm_normalize :: "vec3 \<Rightarrow> vec3" where
  "glm_normalize v = vec3_scale v (1 / sqrt (glm_dot v v))"

fun vec4_scale :: "vec4 \<Rightarrow> real \<Rightarrow> vec4" where
  "vec4_scale (Vec4 a b c d) k = Vec4 (a * k) (b * k) (c * k) (d * k)"

fun vec4_add :: "vec4 \<Rightarrow> vec4 \<Rightarrow> vec4" where
  "vec4_add (Vec4 a b c d) (Vec4 a' b' c' d') = Vec4 (a + a') (b + b') (c + c') (d + d')"

fun mat4_mul_vec4 :: "mat4 \<Rightarrow> vec4 \<Rightarrow> vec4" where
  "mat4_mul_vec4 (Mat4 c0 c1 c2 c3) (Vec4 a b c d) =
     vec4_add (vec4_add (vec4_scale c0 a) (vec4_scale c1 b))
       (vec4_add (vec4_scale c2 c) (vec4_scale c3 d))"

fun mat4_column3 :: "mat4 \<Rightarrow> vec4" where
  "mat4_column3 (Mat4 c0 c1 c2 c3) = c3"

fun mat4_set_column3 :: "mat4 \<Rightarrow> vec4 \<Rightarrow> mat4" where
  "mat4_set_column3 (Mat4 c0 c1 c2 c3) v = Mat4 c0 c1 c2 v"

subsection \<open>The OpenGL calls of the shadow pass\<close>

text \<open>
  The calls are recorded in order. Of the OpenGL state, the depth write mask and the
  texturing switch are kept, which \<^verbatim>\<open>DrawShadows\<close> reads back with
  \<^verbatim>\<open>glGetIntegerv\<close> and \<^verbatim>\<open>glIsEnabled\<close>.
\<close>

datatype GLCap = GL_TEXTURE_2D | GL_BLEND

datatype GLFunc = GL_LESS | GL_LEQUAL

datatype GLPrimitive = GL_TRIANGLE_FAN | GL_TRIANGLE_STRIP

datatype GLCommand =
    glDepthMask bool
  | glDisable GLCap
  | glEnable GLCap
  | glBlendFunc_SRC_ALPHA_ONE_MINUS_SRC_ALPHA
  | glColor4f real real real real
  | glDepthFunc GLFunc
  | glBegin GLPrimitive
  | glVertex3fv vec3
  | glEnd

record GLState =
  depthWriteMask :: bool
  texture2D :: bool
  commands :: "GLCommand list"

fun glExec :: "GLState \<Rightarrow> GLCommand \<Rightarrow> GLState" where
  "glExec g (glDepthMask b) = g\<lparr>depthWriteMask := b, commands := commands g @ [glDepthMask b]\<rparr>"
| "glExec g (glDisable GL_TEXTURE_2D) =
     g\<lparr>texture2D := False, commands := commands g @ [glDisable GL_TEXTURE_2D]\<rparr>"
| "glExec g (glEnable GL_TEXTURE_2D) =
     g\<lparr>texture2D := True, commands := commands g @ [glEnable GL_TEXTURE_2D]\<rparr>"
| "glExec g c = g\<lparr>commands := commands g @ [c]\<rparr>"

definition glRun :: "GLState \<Rightarrow> GLCommand list \<Rightarrow> GLState" where
  "glRun g cs = foldl glExec g cs"

subsection \<open>Renderer state\<close>

record ModelRenderInfo =
  ri_Origin :: vec3
  ri_Angles :: vec3
  ri_Scale :: vec3
  ri_Model :: "EditableStudioModel option"
  ri_Transparency :: real
  ri_Sequence :: int
  ri_Frame :: real
  ri_Bodygroup :: int
  ri_Skin :: int

text \<open>
  The counter \<^verbatim>\<open>_modelsDrawnCount\<close> and the stamps \<^verbatim>\<open>_chromeage\<close> are compared as 32-bit
  values. The per-bone and per-vertex arrays are functions from the index, checked
  against \<open>MAXSTUDIOBONES\<close> and \<open>MAXSTUDIOVERTS\<close> at every access.
\<close>

record StudioModelRenderer =
  modelsDrawnCount :: "32 word"
  drawnPolygonsCount :: "32 word"
  renderInfo :: "ModelRenderInfo option"
  studioModel :: "EditableStudioModel option"
  model :: "Model option"
  bonetransform :: "nat \<Rightarrow> mat4"
  xformverts :: "nat \<Rightarrow> vec3"
  lightvec :: vec3
  wireframeColor :: vec3
  viewerOrigin :: vec3
  viewerRight :: vec3
  chromeage :: "nat \<Rightarrow> 32 word"
  chromeup :: "nat \<Rightarrow> vec3"
  chromeright :: "nat \<Rightarrow> vec3"
  gl :: GLState
  logged :: "string list"

subsection \<open>DrawModel\<close>

text \<open>
  Lines 44 to 58 and 150 to 152 of \<^verbatim>\<open>DrawModel\<close>. The drawing in between (lines 60 to
  148) is the parameter \<open>drawBody\<close>, which returns the number of polygons drawn.
\<close>

definition DrawModel ::
  "(StudioModelRenderer \<Rightarrow> int \<Rightarrow> fault + (StudioModelRenderer \<times> 32 word)) \<Rightarrow>
   StudioModelRenderer \<Rightarrow> ModelRenderInfo \<Rightarrow> int \<Rightarrow> fault + (StudioModelRenderer \<times> 32 word)" where
  "DrawModel drawBody r renderInfo0 flags =
     (let r1 = r\<lparr>renderInfo := Some renderInfo0\<rparr>
      in case ri_Model renderInfo0 of
           None \<Rightarrow> Inr (r1\<lparr>logged := logged r1 @ [''Called with null model!'']\<rparr>, 0)
         | Some m \<Rightarrow>
             (case drawBody (r1\<lparr>studioModel := Some m,
                                 modelsDrawnCount := modelsDrawnCount r1 + 1\<rparr>) flags of
                Inl e \<Rightarrow> Inl e
              | Inr (r2, uiDrawnPolys) \<Rightarrow>
                  Inr (r2\<lparr>drawnPolygonsCount := drawnPolygonsCount r2 + uiDrawnPolys\<rparr>,
                       uiDrawnPolys)))"

subsection \<open>Shadows\<close>

text \<open>
  The loops of \<^verbatim>\<open>InternalDrawShadows\<close> over one triangle command stream. The third
  argument counts the vertices left in the current fan or strip; at 0 the next count is
  read. Every vertex takes four entries of the stream.
\<close>

fun InternalDrawShadows_stream ::
  "StudioModelRenderer \<Rightarrow> real \<Rightarrow> nat \<Rightarrow> int list \<Rightarrow> fault + GLCommand list" where
  "InternalDrawShadows_stream r lightSampleHeight 0 [] = Inl OutOfBounds"
| "InternalDrawShadows_stream r lightSampleHeight 0 (i # triCmds) =
     (if i = 0 then Inr []
      else
        (case InternalDrawShadows_stream r lightSampleHeight (nat \<bar>i\<bar>) triCmds of
           Inl e \<Rightarrow> Inl e
         | Inr out \<Rightarrow>
             Inr (glBegin (if i < 0 then GL_TRIANGLE_FAN else GL_TRIANGLE_STRIP) # out)))"
| "InternalDrawShadows_stream r lightSampleHeight (Suc n) (v # nrm # s # t # triCmds) =
     (if v < 0 \<or> MAXSTUDIOVERTS \<le> v then Inl OutOfBounds
      else
        let vertex = xformverts r (nat v);
            lightDistance = vec_z vertex - lightSampleHeight;
            point = Vec3 (vec_x vertex - vec_x (lightvec r) * lightDistance)
                         (vec_y vertex - vec_y (lightvec r) * lightDistance)
                         (lightSampleHeight + 1)
        in (case InternalDrawShadows_stream r lightSampleHeight n triCmds of
              Inl e \<Rightarrow> Inl e
            | Inr out \<Rightarrow>
                Inr (glVertex3fv point # (if n = 0 then glEnd # out else out))))"
| "InternalDrawShadows_stream r lightSampleHeight (Suc n) triCmds = Inl OutOfBounds"

fun InternalDrawShadows_meshes ::
  "StudioModelRenderer \<Rightarrow> real \<Rightarrow> Mesh list \<Rightarrow> fault + (GLCommand list \<times> 32 word)" where
  "InternalDrawShadows_meshes r lightSampleHeight [] = Inr ([], 0)"
| "InternalDrawShadows_meshes r lightSampleHeight (mesh # meshes) =
     (case InternalDrawShadows_stream r lightSampleHeight 0 (Triangles mesh) of
        Inl e \<Rightarrow> Inl e
      | Inr out \<Rightarrow>
          (case InternalDrawShadows_meshes r lightSampleHeight meshes of
             Inl e \<Rightarrow> Inl e
           | Inr (out', drawnPolys) \<Rightarrow>
               Inr (out @ out', word_of_int (NumTriangles mesh) + drawnPolys)))"

definition InternalDrawShadows ::
  "StudioModelRenderer \<Rightarrow> fault + (StudioModelRenderer \<times> 32 word)" where
  "InternalDrawShadows r =
     (case renderInfo r of
        None \<Rightarrow> Inl NullDereference
      | Some ri \<Rightarrow>
          (case model r of
             None \<Rightarrow> Inl NullDereference
           | Some mdl \<Rightarrow>
               (case InternalDrawShadows_meshes r (vec_z (ri_Origin ri)) (Meshes mdl) of
                  Inl e \<Rightarrow> Inl e
                | Inr (out, drawnPolys) \<Rightarrow> Inr (r\<lparr>gl := glRun (gl r) out\<rparr>, drawnPolys))))"

definition DrawShadows ::
  "StudioModelRenderer \<Rightarrow> bool \<Rightarrow> bool \<Rightarrow> fault + (StudioModelRenderer \<times> 32 word)" where
  "DrawShadows r fixZFighting wireframe =
     (case studioModel r of
        None \<Rightarrow> Inl NullDereference
      | Some sm \<Rightarrow>
          if (ModelFlags sm AND EF_NOSHADELIGHT) = 0
          then
            (case renderInfo r of
               None \<Rightarrow> Inl NullDereference
             | Some ri \<Rightarrow>
                 let oldDepthMask = depthWriteMask (gl r);
                     g1 = glExec (gl r) (glDepthMask (\<not> fixZFighting));
                     r_blend = ri_Transparency ri;
                     alpha = 1 / 2 * r_blend;
                     texture2DWasEnabled = texture2D g1;
                     g2 = glRun g1
                       [glDisable GL_TEXTURE_2D, glBlendFunc_SRC_ALPHA_ONE_MINUS_SRC_ALPHA,
                        glEnable GL_BLEND,
                        (if wireframe
                         then glColor4f (vec_x (wireframeColor r)) (vec_y (wireframeColor r))
                                (vec_z (wireframeColor r)) (ri_Transparency ri)
                         else glColor4f 0 0 0 alpha),
                        glDepthFunc GL_LESS]
                 in (case InternalDrawShadows (r\<lparr>gl := g2\<rparr>) of
                       Inl e \<Rightarrow> Inl e
                     | Inr (r', drawnPolys) \<Rightarrow>
                         Inr (r'\<lparr>gl := glRun (gl r')
                                ([glDepthFunc GL_LEQUAL] @
                                 (if texture2DWasEnabled then [glEnable GL_TEXTURE_2D] else []) @
                                 [glDisable GL_BLEND, glColor4f 1 1 1 1,
                                  glDepthMask oldDepthMask])\<rparr>, drawnPolys)))
          else Inr (r, 0))"

subsection \<open>Chrome\<close>

definition Chrome ::
  "(mat4 \<Rightarrow> mat4) \<Rightarrow> StudioModelRenderer \<Rightarrow> int \<Rightarrow> vec3 \<Rightarrow>
   fault + (StudioModelRenderer \<times> vec2)" where
  "Chrome glm_inverse r bone normal =
     (if bone < 0 \<or> MAXSTUDIOBONES \<le> bone then Inl OutOfBounds
      else
        let b = nat bone;
            r' =
              (if chromeage r b \<noteq> modelsDrawnCount r
               then
                 let tmp = glm_normalize
                       (vec3_add (vec3_scale (viewerOrigin r) (- 1))
                          (vec3_of_vec4 (mat4_column3 (bonetransform r b))));
                     chromeupvec = glm_normalize (glm_cross tmp (viewerRight r));
                     chromerightvec = glm_normalize (glm_cross tmp chromeupvec);
                     matrix = glm_inverse (mat4_set_column3 (bonetransform r b) (Vec4 0 0 0 1))
                 in r\<lparr>chromeup := (chromeup r)
                          (b := vec3_of_vec4
                             (mat4_mul_vec4 matrix (vec4_of_vec3 (vec3_neg chromeupvec) 1))),
                        chromeright := (chromeright r)
                          (b := vec3_of_vec4
                             (mat4_mul_vec4 matrix (vec4_of_vec3 chromerightvec 1))),
                        chromeage := (chromeage r)(b := modelsDrawnCount r)\<rparr>
               else r)
        in Inr (r', Vec2 ((glm_dot normal (chromeright r' b) + 1) * (1 / 2))
                         ((glm_dot normal (chromeup r' b) + 1) * (1 / 2))))"

subsection \<open>The shadow projection in the words of the specification\<close>

text \<open>
  The specification's description of the shadow: a vertex is projected onto the
  horizontal plane one unit above the origin's Z, and its X and Y are offset by the
  light direction's X and Y times the height of the vertex over the origin.
  \<open>spec_streamVertices\<close> lists the vertex indices of a triangle command stream in the
  format the specification gives: a count, then for each vertex the vertex index, the
  normal index and two texture coordinates, until a count of 0.
\<close>

definition spec_shadowPoint :: "vec3 \<Rightarrow> real \<Rightarrow> vec3 \<Rightarrow> vec3" where
  "spec_shadowPoint lightDirection originZ vertex =
     Vec3 (vec_x vertex + vec_x lightDirection * (vec_z vertex - originZ))
          (vec_y vertex + vec_y lightDirection * (vec_z vertex - originZ))
          (originZ + 1)"

fun spec_streamVertices :: "nat \<Rightarrow> int list \<Rightarrow> int list" where
  "spec_streamVertices 0 [] = []"
| "spec_streamVertices 0 (i # cmds) =
     (if i = 0 then [] else spec_streamVertices (nat \<bar>i\<bar>) cmds)"
| "spec_streamVertices (Suc n) (v # nrm # s # t # cmds) = v # spec_streamVertices n cmds"
| "spec_streamVertices (Suc n) cmds = []"

fun emittedVertices :: "GLCommand list \<Rightarrow> vec3 list" where
  "emittedVertices [] = []"
| "emittedVertices (glVertex3fv p # cs) = p # emittedVertices cs"
| "emittedVertices (c # cs) = emittedVertices cs"

section \<open>Concrete inputs\<close>

text \<open>A model with one looping sequence of 30 frames at 30 frames per second.\<close>

definition example_sequence :: Sequence where
  "example_sequence =
     \<lparr>NumFrames = 30, FPS = 30, Flags = 1, SortedEvents = [],
      BlendData = (\<lambda>_. \<lparr>bd_Type = 0, bd_Start = 0, bd_End = 0\<rparr>)\<rparr>"

definition example_model :: EditableStudioModel where
  "example_model = \<lparr>Sequences = [example_sequence], BoneControllers = [], ModelFlags = 0\<rparr>"

definition example_entity :: StudioModelEntity where
  "example_entity =
     \<lparr>editableModel = Some example_model, sequence = 0, frame = 0, lastEventCheck = 0,
      animTime = 5, frameRate = 1, loopingMode = AlwaysLoop,
      controller = (\<lambda>_. 0), controllerValues = (\<lambda>_. 0), mouth = 0, mouthValue = 0,
      blending = (\<lambda>_. 0), blendingValues = (\<lambda>_. 0), blender = StandardBlender\<rparr>"



text \<open>
  A looping sequence of 20 frames with a given event list, and an event at a given frame.
\<close>

definition twenty_frame_sequence :: "SequenceEvent list \<Rightarrow> Sequence" where
  "twenty_frame_sequence evs = example_sequence\<lparr>NumFrames := 20, SortedEvents := evs\<rparr>"

definition twenty_frame_entity :: "SequenceEvent list \<Rightarrow> StudioModelEntity" where
  "twenty_frame_entity evs =
     example_entity\<lparr>editableModel :=
       Some \<lparr>Sequences = [twenty_frame_sequence evs], BoneControllers = [], ModelFlags = 0\<rparr>\<rparr>"

definition event_at :: "int \<Rightarrow> SequenceEvent" where
  "event_at f = \<lparr>Frame = f, EventId = 1000 + f, Options = []\<rparr>"

text \<open>
  A rotational controller whose range wraps (0 to 360) and one whose range does not
  (0 to 90), with sequences whose blend channels have the same descriptors; an entity
  that uses the Counter-Strike blender; a model with the controller of index 1 only.
\<close>

definition wrapping_controller :: BoneController where
  "wrapping_controller = \<lparr>bc_Index = 0, bc_Type = 8, bc_Start = 0, bc_End = 360\<rparr>"

definition wrapping_blend_sequence :: Sequence where
  "wrapping_blend_sequence =
     example_sequence\<lparr>BlendData := (\<lambda>_. \<lparr>bd_Type = 8, bd_Start = 0, bd_End = 360\<rparr>)\<rparr>"

definition pitch_controller :: BoneController where
  "pitch_controller = \<lparr>bc_Index = 1, bc_Type = 8, bc_Start = 0, bc_End = 90\<rparr>"

definition pitch_blend_sequence :: Sequence where
  "pitch_blend_sequence =
     example_sequence\<lparr>BlendData := (\<lambda>_. \<lparr>bd_Type = 8, bd_Start = 0, bd_End = 90\<rparr>)\<rparr>"

definition counter_strike_entity :: StudioModelEntity where
  "counter_strike_entity = example_entity\<lparr>blender := CounterStrikeBlender\<rparr>"

definition pitch_model :: EditableStudioModel where
  "pitch_model = \<lparr>Sequences = [example_sequence], BoneControllers = [pitch_controller], ModelFlags = 0\<rparr>"

definition pitch_entity :: StudioModelEntity where
  "pitch_entity = example_entity\<lparr>editableModel := Some pitch_model\<rparr>"

text \<open>
  A renderer about to draw the shadow of one mesh, a strip of three vertices, with the
  entity's origin at height 10 and a slanted light; the same renderer with a model
  flagged \<^verbatim>\<open>EF_NOSHADELIGHT\<close>; the OpenGL calls of the shadow pass on the first; an
  entity without a model.
\<close>

definition example_renderer :: StudioModelRenderer where
  "example_renderer =
     \<lparr>modelsDrawnCount = 1, drawnPolygonsCount = 0,
      renderInfo = Some \<lparr>ri_Origin = Vec3 0 0 10, ri_Angles = Vec3 0 0 0,
        ri_Scale = Vec3 1 1 1, ri_Model = Some example_model, ri_Transparency = 1,
        ri_Sequence = 0, ri_Frame = 0, ri_Bodygroup = 0, ri_Skin = 0\<rparr>,
      studioModel = Some example_model,
      model = Some \<lparr>Meshes = [\<lparr>NumTriangles = 1,
        Triangles = [3, 0, 0, 0, 0, 1, 0, 0, 0, 2, 0, 0, 0, 0]\<rparr>]\<rparr>,
      bonetransform = (\<lambda>_. Mat4 (Vec4 1 0 0 0) (Vec4 0 1 0 0) (Vec4 0 0 1 0) (Vec4 0 0 0 1)),
      xformverts = (\<lambda>i. Vec3 (real i) 2 (12 + real i)),
      lightvec = Vec3 (1 / 2) 0 (- 1), wireframeColor = Vec3 1 0 0,
      viewerOrigin = Vec3 0 (- 50) 0, viewerRight = Vec3 1 0 0,
      chromeage = (\<lambda>_. 0), chromeup = (\<lambda>_. Vec3 0 0 0), chromeright = (\<lambda>_. Vec3 0 0 0),
      gl = \<lparr>depthWriteMask = True, texture2D = True, commands = []\<rparr>, logged = []\<rparr>"

definition no_shade_renderer :: StudioModelRenderer where
  "no_shade_renderer =
     example_renderer\<lparr>studioModel := Some (example_model\<lparr>ModelFlags := 256\<rparr>)\<rparr>"

definition example_shadow_commands :: "GLCommand list" where
  "example_shadow_commands =
     [glDepthMask True, glDisable GL_TEXTURE_2D, glBlendFunc_SRC_ALPHA_ONE_MINUS_SRC_ALPHA,
      glEnable GL_BLEND, glColor4f 0 0 0 (1 / 2), glDepthFunc GL_LESS,
      glBegin GL_TRIANGLE_STRIP,
      glVertex3fv (Vec3 (- 1) 2 11), glVertex3fv (Vec3 (- (1 / 2)) 2 11),
      glVertex3fv (Vec3 0 2 11),
      glEnd,
      glDepthFunc GL_LEQUAL, glEnable GL_TEXTURE_2D, glDisable GL_BLEND, glColor4f 1 1 1 1,
      glDepthMask True]"

definition unloaded_entity :: StudioModelEntity where
  "unloaded_entity = example_entity\<lparr>editableModel := None\<rparr>"

text \<open>
  The 20-frame entity with one event at frame 18, playing at frame 17.5 with the events
  up to there dispatched.
\<close>

definition late_event_entity :: StudioModelEntity where
  "late_event_entity =
     (twenty_frame_entity [event_at 18])\<lparr>frame := 35 / 2, lastEventCheck := 35 / 2\<rparr>"

section \<open>Rounding to single precision\<close>

lemma round_ties_even_bounds:
  "\<lfloor>y\<rfloor> \<le> round_ties_even y \<and> round_ties_even y \<le> \<lceil>y\<rceil>"
proof -
  have "\<lceil>y\<rceil> = \<lfloor>y\<rfloor> + 1" if "y \<noteq> real_of_int \<lfloor>y\<rfloor>"
    using that by (simp add: ceiling_altdef)
  moreover have "\<lceil>y\<rceil> = \<lfloor>y\<rfloor>" if "y = real_of_int \<lfloor>y\<rfloor>"
    using that by (metis ceiling_of_int)
  ultimately show ?thesis
    by (cases "y = real_of_int \<lfloor>y\<rfloor>") (auto simp add: round_ties_even_def Let_def)
qed

lemma round_ties_even_of_int: "round_ties_even (real_of_int n) = n"
  by (simp add: round_ties_even_def)

lemma float_exponent_eq:
  assumes "2 powr real_of_int e \<le> \<bar>x\<bar>" and "\<bar>x\<bar> < 2 powr (real_of_int e + 1)"
    and "- 126 \<le> e"
  shows "float_exponent x = e"
proof -
  have pos: "0 < \<bar>x\<bar>" using assms(1) by (smt (verit) powr_gt_zero)
  have "real_of_int e \<le> log 2 \<bar>x\<bar>" using assms(1) pos by (simp add: le_log_iff)
  moreover have "log 2 \<bar>x\<bar> < real_of_int e + 1" using assms(2) pos by (simp add: log_less_iff)
  ultimately have "\<lfloor>log 2 \<bar>x\<bar>\<rfloor> = e" by linarith
  then show ?thesis using assms(3) by (simp add: float_exponent_def)
qed

lemma float_exponent_le:
  assumes "x \<noteq> 0" and "\<bar>x\<bar> < 2 powr (real_of_int e + 1)" and "- 126 \<le> e"
  shows "float_exponent x \<le> e"
proof -
  have pos: "0 < \<bar>x\<bar>" using assms(1) by simp
  have "log 2 \<bar>x\<bar> < real_of_int e + 1" using assms(2) pos by (simp add: log_less_iff)
  then have "\<lfloor>log 2 \<bar>x\<bar>\<rfloor> \<le> e" by linarith
  then show ?thesis using assms(3) by (simp add: float_exponent_def)
qed

lemma static_cast_float_exact:
  assumes "float_exponent x = e" and "x = real_of_int n * 2 powr (real_of_int e - 23)"
  shows "static_cast_float x = x"
proof (cases "x = 0")
  case True
  then show ?thesis by (simp add: static_cast_float_def)
next
  case False
  have "x / 2 powr (real_of_int e - 23) = real_of_int n"
    using assms(2) by simp
  then show ?thesis
    using False assms by (simp add: static_cast_float_def Let_def round_ties_even_of_int)
qed

lemma static_cast_float_270: "static_cast_float 270 = 270"
proof -
  have e: "float_exponent 270 = 8"
    by (rule float_exponent_eq) simp_all
  have "(270::real) = real_of_int 8847360 * 2 powr (real_of_int 8 - 23)"
    by (simp add: powr_minus)
  with e show ?thesis by (rule static_cast_float_exact)
qed


lemma float_exponent_ge: "- 126 \<le> float_exponent x"
  by (simp add: float_exponent_def)

lemma static_cast_float_range_360:
  assumes "0 \<le> d" and "d \<le> 360"
  shows "0 \<le> static_cast_float d \<and> static_cast_float d \<le> 360"
proof (cases "d = 0")
  case True
  then show ?thesis by (simp add: static_cast_float_def)
next
  case False
  define e where "e = float_exponent d"
  define m where "m = nat (23 - e)"
  define u where "u = 2 powr (real_of_int e - 23)"
  have "\<bar>d\<bar> < 2 powr (real_of_int 8 + 1)" using assms by simp
  then have e8: "e \<le> 8" unfolding e_def using False by (intro float_exponent_le) simp_all
  have u: "u = 1 / 2 ^ m"
  proof -
    have "real_of_int e - 23 = - real m" unfolding m_def using e8 by simp
    then have "u = 2 powr (- real m)" unfolding u_def by simp
    also have "\<dots> = 1 / 2 powr (real m)" by (simp add: powr_minus divide_inverse)
    also have "\<dots> = 1 / 2 ^ m" by (simp add: powr_realpow)
    finally show ?thesis .
  qed
  have upos: "0 < u" using u by simp
  have val: "static_cast_float d = u * real_of_int (round_ties_even (d / u))"
    using False by (simp add: static_cast_float_def Let_def e_def u_def)
  have "0 \<le> d / u" using assms(1) upos by simp
  then have "0 \<le> \<lfloor>d / u\<rfloor>" by simp
  then have "0 \<le> round_ties_even (d / u)"
    using round_ties_even_bounds [of "d / u"] by linarith
  then have lower: "0 \<le> static_cast_float d" using val upos by simp
  have "d / u \<le> 360 / u" using assms(2) upos by (simp add: divide_right_mono)
  also have "360 / u = real_of_int (360 * 2 ^ m)" using u by simp
  finally have "\<lceil>d / u\<rceil> \<le> 360 * 2 ^ m" by (simp only: ceiling_le_iff)
  then have "round_ties_even (d / u) \<le> 360 * 2 ^ m"
    using round_ties_even_bounds [of "d / u"] by linarith
  then have "real_of_int (round_ties_even (d / u)) \<le> real_of_int (360 * 2 ^ m)"
    by (simp only: of_int_le_iff)
  then have "u * real_of_int (round_ties_even (d / u)) \<le> u * real_of_int (360 * 2 ^ m)"
    using upos by (simp only: mult_le_cancel_left_pos)
  also have "u * real_of_int (360 * 2 ^ m) = 360" using u by simp
  finally have upper: "static_cast_float d \<le> 360" using val by simp
  from lower upper show ?thesis ..
qed

lemma static_cast_float_eval:
  assumes "x \<noteq> 0" and "float_exponent x = e" and "2 powr (real_of_int e - 23) = u"
    and "round_ties_even (x / u) = n"
  shows "static_cast_float x = u * real_of_int n"
  using assms by (simp add: static_cast_float_def Let_def)

lemma static_cast_float_near_360: "static_cast_float (360 - 1 / 10 ^ 10) = 360"
proof -
  let ?x = "360 - 1 / 10 ^ 10 :: real"
  have nz: "?x \<noteq> 0" by simp
  have e: "float_exponent ?x = 8"
    by (rule float_exponent_eq) simp_all
  have u: "(2::real) powr (real_of_int 8 - 23) = 1 / 32768"
    by (simp add: powr_minus)
  have r: "round_ties_even (?x / (1 / 32768)) = 11796480"
    by (simp add: round_ties_even_def Let_def)
  have "static_cast_float ?x = 1 / 32768 * real_of_int 11796480"
    by (rule static_cast_float_eval [OF nz e u r])
  then show ?thesis by simp
qed

section \<open>Frame advance and frame wrap\<close>

lemma float_to_int_nonneg:
  assumes "0 \<le> x" "x < 2147483648"
  shows "float_to_int x = Inr \<lfloor>x\<rfloor>"
proof -
  have "0 \<le> \<lfloor>x\<rfloor>" using assms(1) by simp
  moreover have "\<lfloor>x\<rfloor> < 2147483648" using assms(2) by (simp add: floor_less_iff)
  ultimately show ?thesis using assms(1)
    by (simp add: float_to_int_def INT_MIN_def INT_MAX_def)
qed


lemma example_entity_fields:
  "editableModel example_entity = Some example_model"
  "sequence example_entity = 0"
  "frame example_entity = 0"
  "animTime example_entity = 5"
  "frameRate example_entity = 1"
  "loopingMode example_entity = AlwaysLoop"
  by (simp_all add: example_entity_def)

lemma example_model_fields:
  "Sequences example_model = [example_sequence]"
  "NumFrames example_sequence = 30"
  "FPS example_sequence = 30"
  "Flags example_sequence = 1"
  by (simp_all add: example_model_def example_sequence_def)





text \<open>
  Claim C2. On a current sequence of 30 frames at 30 frames per second for which looping
  applies, with playback rate 1, the frame at 0 and an animation time recorded before,
  \<open>AdvanceFrame(1.0, -1)\<close> returns the elapsed time 1 and leaves the frame at exactly 1.
\<close>

theorem advance_frame_scenario:
  assumes "editableModel s = Some m"
    and "0 \<le> sequence s" and "sequence s < int (length (Sequences m))"
    and "sd = Sequences m ! nat (sequence s)"
    and "NumFrames sd = 30" and "FPS sd = 30" and "shouldLoop (loopingMode s) sd"
    and "frameRate s = 1" and "frame s = 0" and "animTime s \<noteq> 0"
  shows "\<exists>s'. AdvanceFrame now s 1 (- 1) = Inr (s', 1) \<and> frame s' = 1"
  using assms
  by (simp add: AdvanceFrame_def Let_def skipsFrame_def effectiveDeltaTime_def wrap_frame_def
      float_to_int_def int_mul_def INT_MIN_def INT_MAX_def)

theorem advance_frame_scenario_witness:
  "\<exists>s'. AdvanceFrame 6 example_entity 1 (- 1) = Inr (s', 1) \<and> frame s' = 1"
  using advance_frame_scenario [where s = example_entity and m = example_model
      and sd = example_sequence and now = 6]
  by (simp add: example_entity_fields example_model_fields shouldLoop_def)

section \<open>Event dispatch\<close>


lemma scan_out_of_range:
  "i < 0 \<or> int (length (SortedEvents sd)) \<le> i \<Longrightarrow>
   GetAnimationEvent_scan sd ev st en i a = (0, ev)"
  by (simp add: GetAnimationEvent_scan.simps)

lemma GetAnimationEvent_valid:
  assumes "editableModel s = Some m" "0 \<le> sequence s"
    "sequence s < int (length (Sequences m))" "sd = Sequences m ! nat (sequence s)"
  shows "GetAnimationEvent s ev st en i a =
    GetAnimationEvent_scan sd ev (if NumFrames sd \<le> 1 then 0 else st)
      (if NumFrames sd \<le> 1 then 1 else en) i a"
proof (cases "i < 0 \<or> int (length (SortedEvents sd)) \<le> i")
  case True
  then show ?thesis using assms by (simp add: GetAnimationEvent_def Let_def scan_out_of_range)
next
  case False
  then show ?thesis using assms by (simp add: GetAnimationEvent_def Let_def)
qed

lemma scan_past_end:
  "length (SortedEvents sd) \<le> i \<Longrightarrow> GetAnimationEvent_scan sd ev st en (int i) a = (0, ev)"
  by (simp add: GetAnimationEvent_scan.simps)

lemma scan_hit:
  "i < length (SortedEvents sd) \<Longrightarrow> candidateFires sd st en a (SortedEvents sd ! i) \<Longrightarrow>
   GetAnimationEvent_scan sd ev st en (int i) a = (int (Suc i), toAnimEvent (SortedEvents sd ! i))"
  by (simp add: GetAnimationEvent_scan.simps [of sd ev st en "int i" a])

lemma scan_miss:
  "i < length (SortedEvents sd) \<Longrightarrow> \<not> candidateFires sd st en a (SortedEvents sd ! i) \<Longrightarrow>
   GetAnimationEvent_scan sd ev st en (int i) a = GetAnimationEvent_scan sd ev st en (int (Suc i)) a"
  by (simp add: GetAnimationEvent_scan.simps [of sd ev st en "int i" a] add.commute)

lemma dispatch_loop_filter:
  assumes G: "\<And>ev i. GetAnimationEvent s ev st en i a = GetAnimationEvent_scan sd ev st' en' i a"
  shows "DispatchAnimEvents_loop s st en a ev (int i) handled =
    handled @ map toAnimEvent (filter (candidateFires sd st' en' a) (drop i (SortedEvents sd)))"
proof (induction "length (SortedEvents sd) - i" arbitrary: i ev handled)
  case 0
  then have "length (SortedEvents sd) \<le> i" by simp
  then show ?case
    by (simp add: DispatchAnimEvents_loop.simps [of s st en a ev "int i" handled] G scan_past_end)
next
  case (Suc k)
  then have lt: "i < length (SortedEvents sd)" and k: "k = length (SortedEvents sd) - Suc i"
    by simp_all
  have drop: "drop i (SortedEvents sd) = SortedEvents sd ! i # drop (Suc i) (SortedEvents sd)"
    using lt by (simp add: Cons_nth_drop_Suc)
  show ?case
  proof (cases "candidateFires sd st' en' a (SortedEvents sd ! i)")
    case True
    have "DispatchAnimEvents_loop s st en a ev (int i) handled =
        DispatchAnimEvents_loop s st en a (toAnimEvent (SortedEvents sd ! i)) (int (Suc i))
          (handled @ [toAnimEvent (SortedEvents sd ! i)])"
      using scan_hit [OF lt True, of ev]
      by (simp add: DispatchAnimEvents_loop.simps [of s st en a ev "int i" handled] G)
    also have "\<dots> = (handled @ [toAnimEvent (SortedEvents sd ! i)]) @
        map toAnimEvent (filter (candidateFires sd st' en' a) (drop (Suc i) (SortedEvents sd)))"
      by (rule Suc.hyps(1) [OF k])
    finally show ?thesis using True drop by simp
  next
    case False
    have "DispatchAnimEvents_loop s st en a ev (int i) handled =
        DispatchAnimEvents_loop s st en a ev (int (Suc i)) handled"
      using scan_miss [OF lt False, of ev]
      by (simp only: DispatchAnimEvents_loop.simps [of s st en a ev "int i" handled]
          DispatchAnimEvents_loop.simps [of s st en a ev "int (Suc i)" handled] G)
    also have "\<dots> = handled @
        map toAnimEvent (filter (candidateFires sd st' en' a) (drop (Suc i) (SortedEvents sd)))"
      by (rule Suc.hyps(1) [OF k])
    finally show ?thesis using False drop by simp
  qed
qed

lemma DispatchAnimEvents_valid:
  assumes "editableModel s = Some m" "0 \<le> sequence s"
    "sequence s < int (length (Sequences m))" "sd = Sequences m ! nat (sequence s)"
    "1 < NumFrames sd"
  shows "DispatchAnimEvents s a =
    (s\<lparr>lastEventCheck := frame s\<rparr>,
     map toAnimEvent (filter (candidateFires sd (lastEventCheck s) (frame s) a) (SortedEvents sd)))"
proof -
  have G: "GetAnimationEvent s ev (lastEventCheck s) (frame s) i a =
      GetAnimationEvent_scan sd ev (lastEventCheck s) (frame s) i a" for ev i
    using GetAnimationEvent_valid [OF assms(1-4), of ev "lastEventCheck s" "frame s" i a] assms(5)
    by simp
  show ?thesis
    using dispatch_loop_filter [of s "lastEventCheck s" "frame s" a sd "lastEventCheck s" "frame s"
        uninitialisedEvent 0 "[]", OF G] assms(1)
    by (simp add: DispatchAnimEvents_def)
qed

lemma dispatchOverFrames_windows:
  assumes "editableModel s = Some m" "0 \<le> sequence s"
    "sequence s < int (length (Sequences m))" "sd = Sequences m ! nat (sequence s)"
    "1 < NumFrames sd"
  shows "dispatchOverFrames a s fs =
    concat (map (\<lambda>(st, en). map toAnimEvent (filter (candidateFires sd st en a) (SortedEvents sd)))
      (frameWindows (lastEventCheck s) fs))"
  using assms
proof (induction fs arbitrary: s)
  case Nil
  show ?case by simp
next
  case (Cons f fs)
  let ?s1 = "s\<lparr>frame := f\<rparr>"
  have d: "DispatchAnimEvents ?s1 a =
      (?s1\<lparr>lastEventCheck := frame ?s1\<rparr>,
       map toAnimEvent (filter (candidateFires sd (lastEventCheck ?s1) (frame ?s1) a)
         (SortedEvents sd)))"
    by (rule DispatchAnimEvents_valid [of ?s1 m]) (use Cons.prems in simp_all)
  have ih: "dispatchOverFrames a (?s1\<lparr>lastEventCheck := frame ?s1\<rparr>) fs =
      concat (map (\<lambda>(st, en). map toAnimEvent (filter (candidateFires sd st en a) (SortedEvents sd)))
        (frameWindows (lastEventCheck (?s1\<lparr>lastEventCheck := frame ?s1\<rparr>)) fs))"
    by (rule Cons.IH) (use Cons.prems in simp_all)
  show ?case using d ih by simp
qed

lemma mset_filter_adjacent_windows:
  assumes "w \<le> f" "f \<le> l"
  shows "mset (filter (inWindow w f) evs) + mset (filter (inWindow f l) evs) =
    mset (filter (inWindow w l) evs)"
  using assms by (induction evs) (auto simp add: inWindow_def)

lemma mset_windows_chain:
  assumes "sorted (w # fs)"
  shows "mset (concat (map (\<lambda>(st, en). filter (inWindow st en) evs) (frameWindows w fs))) =
    mset (filter (inWindow w (last (w # fs))) evs)"
  using assms
proof (induction fs arbitrary: w)
  case Nil
  have "filter (inWindow w w) evs = []" by (induction evs) (auto simp add: inWindow_def)
  then show ?case by simp
next
  case (Cons f fs)
  then have wf: "w \<le> f" and fl: "f \<le> last (f # fs)" and so: "sorted (f # fs)"
    by auto
  have "mset (concat (map (\<lambda>(st, en). filter (inWindow st en) evs) (frameWindows w (f # fs)))) =
      mset (filter (inWindow w f) evs) + mset (filter (inWindow f (last (f # fs))) evs)"
    using Cons.IH [OF so] by simp
  also have "\<dots> = mset (filter (inWindow w (last (f # fs))) evs)"
    by (rule mset_filter_adjacent_windows [OF wf fl])
  finally show ?case by simp
qed


lemma twenty_frame_fields:
  "editableModel (twenty_frame_entity evs) =
     Some \<lparr>Sequences = [twenty_frame_sequence evs], BoneControllers = [], ModelFlags = 0\<rparr>"
  "sequence (twenty_frame_entity evs) = 0"
  "lastEventCheck (twenty_frame_entity evs) = 0"
  "NumFrames (twenty_frame_sequence evs) = 20"
  "Flags (twenty_frame_sequence evs) = 1"
  "SortedEvents (twenty_frame_sequence evs) = evs"
  by (simp_all add: twenty_frame_entity_def twenty_frame_sequence_def example_entity_def
      example_sequence_def)

lemma candidateFires_quiet:
  assumes "\<forall>c \<in> set evs. loopClause sd en c \<longrightarrow> inWindow st en c"
  shows "filter (candidateFires sd st en True) evs = filter (inWindow st en) evs"
  using assms by (intro filter_cong) (auto simp add: candidateFires_def)

lemma windows_quiet:
  assumes "\<forall>(st, en) \<in> set ws. \<forall>c \<in> set evs. loopClause sd en c \<longrightarrow> inWindow st en c"
  shows "concat (map (\<lambda>(st, en). map toAnimEvent (filter (candidateFires sd st en True) evs)) ws) =
    map toAnimEvent (concat (map (\<lambda>(st, en). filter (inWindow st en) evs) ws))"
  using assms
proof (induction ws)
  case Nil
  show ?case by simp
next
  case (Cons w ws)
  obtain st en where w: "w = (st, en)" by (cases w)
  have "filter (candidateFires sd st en True) evs = filter (inWindow st en) evs"
    using Cons.prems w by (intro candidateFires_quiet) auto
  moreover have "concat (map (\<lambda>(st, en). map toAnimEvent (filter (candidateFires sd st en True) evs)) ws) =
      map toAnimEvent (concat (map (\<lambda>(st, en). filter (inWindow st en) evs) ws))"
    using Cons.prems by (intro Cons.IH) auto
  ultimately show ?case using w by simp
qed

text \<open>
  Claim C3, as the code has it. For a loaded model and a valid current sequence with more
  than one frame, with client events allowed: when the frame moves through the increasing
  values \<open>fs\<close>, starting with the event marker at \<open>lastEventCheck s\<close>, and in no window
  the clause for looping sequences catches an event outside that window, the events
  handled are exactly the events whose frame lies between the first marker and the last
  frame, each once; when every event lies there, they are all the events of the sequence,
  each once. The event list need not be sorted for this.
\<close>

theorem dispatch_full_loop_amended:
  assumes m: "editableModel s = Some m"
    and lo: "0 \<le> sequence s" and hi: "sequence s < int (length (Sequences m))"
    and sd: "sd = Sequences m ! nat (sequence s)"
    and frames: "1 < NumFrames sd"
    and chain: "sorted (lastEventCheck s # fs)"
    and quiet: "\<forall>(st, en) \<in> set (frameWindows (lastEventCheck s) fs).
        \<forall>c \<in> set (SortedEvents sd). loopClause sd en c \<longrightarrow> inWindow st en c"
  shows "mset (dispatchOverFrames True s fs) =
      mset (map toAnimEvent
        (filter (inWindow (lastEventCheck s) (last (lastEventCheck s # fs))) (SortedEvents sd))) \<and>
    ((\<forall>c \<in> set (SortedEvents sd). inWindow (lastEventCheck s) (last (lastEventCheck s # fs)) c) \<longrightarrow>
      mset (dispatchOverFrames True s fs) = mset (map toAnimEvent (SortedEvents sd)))"
proof -
  have "dispatchOverFrames True s fs =
      map toAnimEvent (concat (map (\<lambda>(st, en). filter (inWindow st en) (SortedEvents sd))
        (frameWindows (lastEventCheck s) fs)))"
    using dispatchOverFrames_windows [OF m lo hi sd frames, of True fs] windows_quiet [OF quiet]
    by simp
  then have covered: "mset (dispatchOverFrames True s fs) =
      mset (map toAnimEvent
        (filter (inWindow (lastEventCheck s) (last (lastEventCheck s # fs))) (SortedEvents sd)))"
    using mset_windows_chain [OF chain, of "SortedEvents sd"] by simp
  show ?thesis
  proof (intro conjI impI)
    show "mset (dispatchOverFrames True s fs) =
        mset (map toAnimEvent
          (filter (inWindow (lastEventCheck s) (last (lastEventCheck s # fs))) (SortedEvents sd)))"
      by (rule covered)
  next
    assume "\<forall>c \<in> set (SortedEvents sd).
        inWindow (lastEventCheck s) (last (lastEventCheck s # fs)) c"
    then have "filter (inWindow (lastEventCheck s) (last (lastEventCheck s # fs)))
        (SortedEvents sd) = SortedEvents sd"
      by (simp only: filter_id_conv)
    with covered show "mset (dispatchOverFrames True s fs) =
        mset (map toAnimEvent (SortedEvents sd))"
      by (simp only:)
  qed
qed

theorem dispatch_full_loop_amended_witness:
  "mset (dispatchOverFrames True
      (twenty_frame_entity [event_at 1, event_at 5, event_at 12, event_at 18]) [10, 20]) =
   mset (map toAnimEvent [event_at 1, event_at 5, event_at 12, event_at 18])"
proof -
  let ?evs = "[event_at 1, event_at 5, event_at 12, event_at 18]"
  let ?s = "twenty_frame_entity ?evs"
  let ?m = "\<lparr>Sequences = [twenty_frame_sequence ?evs], BoneControllers = [], ModelFlags = 0\<rparr>"
  have m: "editableModel ?s = Some ?m" by (simp add: twenty_frame_fields)
  have lo: "0 \<le> sequence ?s" by (simp add: twenty_frame_fields)
  have hi: "sequence ?s < int (length (Sequences ?m))" by (simp add: twenty_frame_fields)
  have sd: "twenty_frame_sequence ?evs = Sequences ?m ! nat (sequence ?s)"
    by (simp add: twenty_frame_fields)
  have frames: "1 < NumFrames (twenty_frame_sequence ?evs)" by (simp add: twenty_frame_fields)
  have chain: "sorted (lastEventCheck ?s # [10, 20])" by (simp add: twenty_frame_fields)
  have quiet: "\<forall>(st, en) \<in> set (frameWindows (lastEventCheck ?s) [10, 20]).
      \<forall>c \<in> set (SortedEvents (twenty_frame_sequence ?evs)).
        loopClause (twenty_frame_sequence ?evs) en c \<longrightarrow> inWindow st en c"
    by (simp add: twenty_frame_fields loopClause_def inWindow_def event_at_def)
  have cover: "\<forall>c \<in> set (SortedEvents (twenty_frame_sequence ?evs)).
      inWindow (lastEventCheck ?s) (last (lastEventCheck ?s # [10, 20])) c"
    by (simp add: twenty_frame_fields inWindow_def event_at_def)
  from dispatch_full_loop_amended [OF m lo hi sd frames chain quiet, THEN conjunct2, THEN mp,
      OF cover]
  show ?thesis by (simp only: twenty_frame_fields)
qed

text \<open>
  Claim C3 as stated fails: for a sequence of 20 frames flagged as looping, with events
  at frames 0 and 12, the windows \<open>[0, 10)\<close> and \<open>[10, 20)\<close> handle the event at frame 0
  twice, the second time by the clause for looping sequences (\<open>0 < 20 - 20 + 1\<close>).
\<close>

theorem dispatch_full_loop_counterexample:
  "sorted (map Frame [event_at 0, event_at 12]) \<and>
   dispatchOverFrames True (twenty_frame_entity [event_at 0, event_at 12]) [10, 20] =
     [toAnimEvent (event_at 0), toAnimEvent (event_at 0), toAnimEvent (event_at 12)] \<and>
   mset (dispatchOverFrames True (twenty_frame_entity [event_at 0, event_at 12]) [10, 20]) \<noteq>
     mset (map toAnimEvent [event_at 0, event_at 12])"
proof -
  let ?evs = "[event_at 0, event_at 12]"
  let ?s = "twenty_frame_entity ?evs"
  let ?m = "\<lparr>Sequences = [twenty_frame_sequence ?evs], BoneControllers = [], ModelFlags = 0\<rparr>"
  have "dispatchOverFrames True ?s [10, 20] =
      concat (map (\<lambda>(st, en). map toAnimEvent
        (filter (candidateFires (twenty_frame_sequence ?evs) st en True)
          (SortedEvents (twenty_frame_sequence ?evs))))
        (frameWindows (lastEventCheck ?s) [10, 20]))"
    by (rule dispatchOverFrames_windows [of ?s ?m]) (simp_all add: twenty_frame_fields)
  then have run: "dispatchOverFrames True ?s [10, 20] =
      [toAnimEvent (event_at 0), toAnimEvent (event_at 0), toAnimEvent (event_at 12)]"
    by (simp add: twenty_frame_fields candidateFires_def inWindow_def loopClause_def
        event_at_def STUDIO_LOOPING_def)
  have "mset [toAnimEvent (event_at 0), toAnimEvent (event_at 0), toAnimEvent (event_at 12)] \<noteq>
      mset (map toAnimEvent ?evs)"
  proof
    assume "mset [toAnimEvent (event_at 0), toAnimEvent (event_at 0), toAnimEvent (event_at 12)] =
        mset (map toAnimEvent ?evs)"
    then have "length [toAnimEvent (event_at 0), toAnimEvent (event_at 0),
        toAnimEvent (event_at 12)] = length (map toAnimEvent ?evs)"
      by (rule mset_eq_length)
    then show False by simp
  qed
  moreover have "sorted (map Frame ?evs)" by (simp add: event_at_def)
  ultimately show ?thesis using run by (simp only:) simp
qed

text \<open>
  A remark on the wrap of \<open>AdvanceFrame\<close>, which the statement above leaves aside. When
  the frame wraps, the event marker is set to the new frame minus the increment, so
  the next window starts below 0: advancing the entity above by ten frames takes the
  frame from 17.5 over the event at frame 18 to 8.5, the window becomes \<open>[-1.5, 8.5)\<close>,
  and the event at frame 18 is not handled.
\<close>

lemma advance_wrap_skips_late_event:
  "AdvanceFrame 6 late_event_entity (1 / 3) (- 1) =
     Inr (late_event_entity\<lparr>frame := 17 / 2, lastEventCheck := - (3 / 2), animTime := 6\<rparr>,
          1 / 3) \<and>
   DispatchAnimEvents
     (late_event_entity\<lparr>frame := 17 / 2, lastEventCheck := - (3 / 2), animTime := 6\<rparr>) True =
     (late_event_entity\<lparr>frame := 17 / 2, lastEventCheck := 17 / 2, animTime := 6\<rparr>, [])"
proof -
  let ?s = "late_event_entity\<lparr>frame := 17 / 2, lastEventCheck := - (3 / 2), animTime := 6\<rparr>"
  let ?m = "\<lparr>Sequences = [twenty_frame_sequence [event_at 18]], BoneControllers = [],
      ModelFlags = 0\<rparr>"
  have advance: "AdvanceFrame 6 late_event_entity (1 / 3) (- 1) = Inr (?s, 1 / 3)"
    by (simp add: AdvanceFrame_def late_event_entity_def twenty_frame_entity_def
        twenty_frame_sequence_def example_entity_def example_sequence_def skipsFrame_def
        effectiveDeltaTime_def shouldLoop_def wrap_frame_def float_to_int_def int_mul_def
        INT_MIN_def INT_MAX_def Let_def)
  have "DispatchAnimEvents ?s True =
      (?s\<lparr>lastEventCheck := frame ?s\<rparr>,
       map toAnimEvent (filter (candidateFires (twenty_frame_sequence [event_at 18])
         (lastEventCheck ?s) (frame ?s) True)
         (SortedEvents (twenty_frame_sequence [event_at 18]))))"
    by (rule DispatchAnimEvents_valid [of ?s ?m])
      (simp_all add: late_event_entity_def twenty_frame_fields)
  then have "DispatchAnimEvents ?s True =
      (late_event_entity\<lparr>frame := 17 / 2, lastEventCheck := 17 / 2, animTime := 6\<rparr>, [])"
    by (simp add: twenty_frame_fields candidateFires_def inWindow_def loopClause_def
        event_at_def)
  with advance show ?thesis by (simp only:) 
qed

section \<open>Controller, mouth and blend codec\<close>

lemma SetMouth_value_eq: "SetMouth_value bc v = SetController_value bc v"
  by (simp add: SetMouth_value_def SetController_value_def)

lemma clamp_range: "lo \<le> hi \<Longrightarrow> lo \<le> clamp n lo hi \<and> clamp n lo hi \<le> hi"
  by (simp add: clamp_def)

lemma SetController_setting_range:
  "SetController_setting bc v = Inr n \<Longrightarrow> 0 \<le> n \<and> n \<le> 255"
  using clamp_range [of 0 255]
  by (auto simp add: SetController_setting_def split: sum.splits if_splits)

lemma SetMouth_setting_range:
  "SetMouth_setting bc v = Inr n \<Longrightarrow> 0 \<le> n \<and> n \<le> 64"
  using clamp_range [of 0 64]
  by (auto simp add: SetMouth_setting_def split: sum.splits if_splits)

lemma SetController_value_plain:
  "\<not> isRotational (bc_Type bc) \<Longrightarrow> SetController_value bc v = Inr v"
  by (simp add: SetController_value_def)

lemma SetController_value_recentre:
  "isRotational (bc_Type bc) \<Longrightarrow> bc_End bc \<le> bc_Start bc + 359 \<Longrightarrow>
   SetController_value bc v =
     Inr (let value1 = (if bc_End bc < bc_Start bc then - v else v);
              value2 = (if (bc_Start bc + bc_End bc) / 2 + 180 < value1
                        then value1 - 360 else value1)
          in if value2 < (bc_Start bc + bc_End bc) / 2 - 180 then value2 + 360 else value2)"
  by (simp add: SetController_value_def Let_def)

lemma SetController_value_wrap_inside:
  "isRotational (bc_Type bc) \<Longrightarrow> \<not> bc_End bc \<le> bc_Start bc + 359 \<Longrightarrow>
   0 \<le> v \<Longrightarrow> v \<le> 360 \<Longrightarrow> SetController_value bc v = Inr v"
  by (simp add: SetController_value_def Let_def)

lemma blend_agrees:
  assumes b: "0 \<le> b" "b < STUDIO_MAX_BLENDERS"
    and ty: "bd_Type (BlendData sd (nat b)) = bc_Type bc"
    and st: "bd_Start (BlendData sd (nat b)) = bc_Start bc"
    and en: "bd_End (BlendData sd (nat b)) = bc_End bc"
    and used: "bc_Type bc \<noteq> 0"
    and side: "\<not> isRotational (bc_Type bc) \<or> bc_End bc \<le> bc_Start bc + 359 \<or>
        (0 \<le> v \<and> v \<le> 360)"
  shows "StandardBlender_CalculateBlend sd b v =
    (case SetController_setting bc v of
       Inl e \<Rightarrow> Inl e
     | Inr n \<Rightarrow> Inr (Some (word_of_int n)))"
proof -
  consider (plain) "\<not> isRotational (bc_Type bc)"
    | (recentre) "isRotational (bc_Type bc)" "bc_End bc \<le> bc_Start bc + 359"
    | (inside) "isRotational (bc_Type bc)" "\<not> bc_End bc \<le> bc_Start bc + 359"
        "0 \<le> v" "v \<le> 360"
    using side by blast
  then show ?thesis
  proof cases
    case plain
    then show ?thesis
      using b ty st en used
      by (simp add: StandardBlender_CalculateBlend_def SetController_setting_def
          SetController_value_plain split: sum.splits)
  next
    case recentre
    then show ?thesis
      using b ty st en used
      by (simp add: StandardBlender_CalculateBlend_def SetController_setting_def
          SetController_value_recentre Let_def split: sum.splits)
  next
    case inside
    then show ?thesis
      using b ty st en used
      by (simp add: StandardBlender_CalculateBlend_def SetController_setting_def
          SetController_value_wrap_inside split: sum.splits)
  qed
qed


text \<open>
  Claim C4, as the code has it. \<open>SetController\<close> and \<open>SetMouth\<close> carry out the same
  inversion, re-centring and reduction of the value, and differ only in the scale and
  clamp of the setting (255 against 64). \<open>StandardBlender::CalculateBlend\<close> carries out
  the same inversion and re-centring, gives no value for a channel of type 0 and has no
  reduction for a range that wraps: for a channel of type other than 0 it gives the
  setting of \<open>SetController\<close> unless the channel is rotational, wraps, and the value
  lies outside \<open>[0, 360]\<close>.
\<close>

theorem codec_paths_amended:
  "SetMouth_value bc v = SetController_value bc v \<and>
   SetMouth_setting bc v =
     (case SetController_value bc v of
        Inl e \<Rightarrow> Inl e
      | Inr x \<Rightarrow>
          if bc_End bc - bc_Start bc = 0 then Inl UndefinedConversion
          else (case float_to_int (64 * (x - bc_Start bc) / (bc_End bc - bc_Start bc)) of
                  Inl e \<Rightarrow> Inl e
                | Inr n \<Rightarrow> Inr (clamp n 0 64))) \<and>
   (\<forall>n. SetController_setting bc v = Inr n \<longrightarrow> 0 \<le> n \<and> n \<le> 255) \<and>
   (\<forall>n. SetMouth_setting bc v = Inr n \<longrightarrow> 0 \<le> n \<and> n \<le> 64) \<and>
   (0 \<le> b \<and> b < STUDIO_MAX_BLENDERS \<and>
    bd_Type (BlendData sd (nat b)) = bc_Type bc \<and>
    bd_Start (BlendData sd (nat b)) = bc_Start bc \<and>
    bd_End (BlendData sd (nat b)) = bc_End bc \<and>
    bc_Type bc \<noteq> 0 \<and>
    (\<not> isRotational (bc_Type bc) \<or> bc_End bc \<le> bc_Start bc + 359 \<or> (0 \<le> v \<and> v \<le> 360)) \<longrightarrow>
    StandardBlender_CalculateBlend sd b v =
      (case SetController_setting bc v of
         Inl e \<Rightarrow> Inl e
       | Inr n \<Rightarrow> Inr (Some (word_of_int n))))"
proof (intro conjI allI impI)
  show "SetMouth_value bc v = SetController_value bc v"
    by (rule SetMouth_value_eq)
next
  show "SetMouth_setting bc v =
     (case SetController_value bc v of
        Inl e \<Rightarrow> Inl e
      | Inr x \<Rightarrow>
          if bc_End bc - bc_Start bc = 0 then Inl UndefinedConversion
          else (case float_to_int (64 * (x - bc_Start bc) / (bc_End bc - bc_Start bc)) of
                  Inl e \<Rightarrow> Inl e
                | Inr n \<Rightarrow> Inr (clamp n 0 64)))"
    by (simp only: SetMouth_setting_def SetMouth_value_eq)
next
  fix n assume "SetController_setting bc v = Inr n"
  then have "0 \<le> n \<and> n \<le> 255" by (rule SetController_setting_range)
  then show "0 \<le> n" and "n \<le> 255" by simp_all
next
  fix n assume "SetMouth_setting bc v = Inr n"
  then have "0 \<le> n \<and> n \<le> 64" by (rule SetMouth_setting_range)
  then show "0 \<le> n" and "n \<le> 64" by simp_all
next
  assume a: "0 \<le> b \<and> b < STUDIO_MAX_BLENDERS \<and>
    bd_Type (BlendData sd (nat b)) = bc_Type bc \<and>
    bd_Start (BlendData sd (nat b)) = bc_Start bc \<and>
    bd_End (BlendData sd (nat b)) = bc_End bc \<and>
    bc_Type bc \<noteq> 0 \<and>
    (\<not> isRotational (bc_Type bc) \<or> bc_End bc \<le> bc_Start bc + 359 \<or> (0 \<le> v \<and> v \<le> 360))"
  show "StandardBlender_CalculateBlend sd b v =
      (case SetController_setting bc v of
         Inl e \<Rightarrow> Inl e
       | Inr n \<Rightarrow> Inr (Some (word_of_int n)))"
    by (rule blend_agrees) (use a in simp_all)
qed

lemma pitch_fields:
  "bc_Type pitch_controller = 8" "bc_Start pitch_controller = 0" "bc_End pitch_controller = 90"
  "BlendData pitch_blend_sequence i = \<lparr>bd_Type = 8, bd_Start = 0, bd_End = 90\<rparr>"
  by (simp_all add: pitch_controller_def pitch_blend_sequence_def)

lemma wrapping_fields:
  "bc_Type wrapping_controller = 8" "bc_Start wrapping_controller = 0"
  "bc_End wrapping_controller = 360"
  "BlendData wrapping_blend_sequence i = \<lparr>bd_Type = 8, bd_Start = 0, bd_End = 360\<rparr>"
  by (simp_all add: wrapping_controller_def wrapping_blend_sequence_def)

lemma isRotational_8: "isRotational 8"
  by (simp add: isRotational_def STUDIO_XR_def STUDIO_YR_def STUDIO_ZR_def)

lemma pitch_setting: "SetController_setting pitch_controller 45 = Inr 127"
  by (simp add: SetController_setting_def SetController_value_def pitch_fields isRotational_8
      float_to_int_def INT_MIN_def INT_MAX_def clamp_def)

theorem codec_paths_amended_witness:
  "SetMouth_value pitch_controller 45 = SetController_value pitch_controller 45 \<and>
   SetController_setting pitch_controller 45 = Inr 127 \<and>
   StandardBlender_CalculateBlend pitch_blend_sequence 0 45 = Inr (Some 127)"
  using codec_paths_amended [of pitch_controller 45 0 pitch_blend_sequence]
  by (simp add: pitch_setting pitch_fields STUDIO_MAX_BLENDERS_def)

text \<open>
  Claim C4 as stated fails: for the descriptor (type X rotation, start 0, end 360) and
  the value \<open>-90\<close>, \<open>SetController\<close> reduces the value to 270 and encodes 191, while
  \<open>StandardBlender::CalculateBlend\<close> encodes the unreduced value and clamps to 0.
\<close>

theorem codec_paths_counterexample:
  "bd_Type (BlendData wrapping_blend_sequence 0) = bc_Type wrapping_controller \<and>
   bd_Start (BlendData wrapping_blend_sequence 0) = bc_Start wrapping_controller \<and>
   bd_End (BlendData wrapping_blend_sequence 0) = bc_End wrapping_controller \<and>
   SetController_setting wrapping_controller (- 90) = Inr 191 \<and>
   StandardBlender_CalculateBlend wrapping_blend_sequence 0 (- 90) = Inr (Some 0)"
  by (simp add: SetController_setting_def SetController_value_def
      StandardBlender_CalculateBlend_def wrapping_fields isRotational_8
      float_to_int_def INT_MIN_def INT_MAX_def clamp_def STUDIO_MAX_BLENDERS_def
      static_cast_float_270)


lemma SetController_value_wrap_above:
  assumes rot: "isRotational (bc_Type bc)" and wrap: "bc_Start bc + 359 < bc_End bc"
    and above: "360 < v" and bound: "v / 360 < 2147483648"
  shows "SetController_value bc v =
    Inr (static_cast_float (v - real_of_int \<lfloor>v / 360\<rfloor> * 360))"
proof -
  have "float_to_int (v / 360) = Inr \<lfloor>v / 360\<rfloor>"
    using above bound by (intro float_to_int_nonneg) simp_all
  then show ?thesis using rot wrap above by (simp add: SetController_value_def)
qed

lemma SetController_value_wrap_below:
  assumes rot: "isRotational (bc_Type bc)" and wrap: "bc_Start bc + 359 < bc_End bc"
    and below: "v < 0" and bound: "- v / 360 + 1 < 2147483648"
  shows "SetController_value bc v =
    Inr (static_cast_float (v + real_of_int (\<lfloor>- v / 360\<rfloor> + 1) * 360))"
proof -
  have "float_to_int (- v / 360 + 1) = Inr \<lfloor>- v / 360 + 1\<rfloor>"
    using below bound by (intro float_to_int_nonneg) simp_all
  moreover have "\<lfloor>- v / 360 + 1\<rfloor> = \<lfloor>- v / 360\<rfloor> + 1"
    using floor_add_int [of "- v / 360" 1, symmetric] by (simp only: of_int_1)
  moreover have "v / (- 360) + 1 = - v / 360 + 1" by simp
  ultimately show ?thesis using rot wrap below by (simp add: SetController_value_def)
qed

lemma floor_remainder_360:
  fixes u :: real
  shows "0 \<le> u - real_of_int \<lfloor>u / 360\<rfloor> * 360 \<and> u - real_of_int \<lfloor>u / 360\<rfloor> * 360 < 360"
proof -
  have "real_of_int \<lfloor>u / 360\<rfloor> \<le> u / 360" by (rule of_int_floor_le)
  then have lo: "real_of_int \<lfloor>u / 360\<rfloor> * 360 \<le> u" by linarith
  have "u / 360 < real_of_int \<lfloor>u / 360\<rfloor> + 1" by linarith
  then have hi: "u < real_of_int \<lfloor>u / 360\<rfloor> * 360 + 360" by linarith
  from lo hi show ?thesis by linarith
qed

text \<open>
  Claim C5, as the code has it. For a rotational controller whose range wraps
  (\<open>Start + 359 < End\<close>) and a value small enough for the conversion to \<^verbatim>\<open>int\<close>,
  \<open>SetController\<close> and \<open>SetMouth\<close> bring the value into the closed interval
  \<open>[0, 360]\<close>: a value in \<open>[0, 360]\<close> is left as it is, 360 included, and any other
  value is replaced by the single precision rounding of the value plus a multiple of
  360. (The value is never inverted here: a range that wraps has \<open>Start < End\<close>.)
\<close>

theorem wrap_normalise_amended:
  assumes rot: "isRotational (bc_Type bc)" and wrap: "bc_Start bc + 359 < bc_End bc"
    and bound: "\<bar>v\<bar> / 360 + 1 < 2147483648"
  shows "\<exists>x. SetController_value bc v = Inr x \<and> SetMouth_value bc v = Inr x \<and>
      0 \<le> x \<and> x \<le> 360 \<and>
      (0 \<le> v \<and> v \<le> 360 \<longrightarrow> x = v) \<and>
      (v < 0 \<or> 360 < v \<longrightarrow> (\<exists>k. x = static_cast_float (v + 360 * real_of_int k)))"
proof -
  consider (above) "360 < v" | (below) "v < 0" | (inside) "0 \<le> v" "v \<le> 360" by linarith
  then show ?thesis
  proof cases
    case above
    let ?k = "\<lfloor>v / 360\<rfloor>"
    let ?d = "v - real_of_int ?k * 360"
    have "v / 360 < 2147483648" using bound above by simp
    then have val: "SetController_value bc v = Inr (static_cast_float ?d)"
      by (rule SetController_value_wrap_above [OF rot wrap above])
    have "0 \<le> ?d \<and> ?d < 360" by (rule floor_remainder_360)
    then have range: "0 \<le> static_cast_float ?d \<and> static_cast_float ?d \<le> 360"
      by (intro static_cast_float_range_360) simp_all
    have "?d = v + 360 * real_of_int (- ?k)" by simp
    then have "\<exists>k. static_cast_float ?d = static_cast_float (v + 360 * real_of_int k)"
      by metis
    with val range above show ?thesis
      by (intro exI [of _ "static_cast_float ?d"]) (simp add: SetMouth_value_eq)
  next
    case below
    let ?k = "\<lfloor>- v / 360\<rfloor> + 1"
    let ?d = "v + real_of_int ?k * 360"
    have "- v / 360 + 1 < 2147483648" using bound below by simp
    then have val: "SetController_value bc v = Inr (static_cast_float ?d)"
      by (rule SetController_value_wrap_below [OF rot wrap below])
    have rem: "0 \<le> - v - real_of_int \<lfloor>- v / 360\<rfloor> * 360 \<and>
        - v - real_of_int \<lfloor>- v / 360\<rfloor> * 360 < 360"
      by (rule floor_remainder_360)
    have "0 \<le> ?d \<and> ?d \<le> 360" using rem by (simp add: algebra_simps)
    then have range: "0 \<le> static_cast_float ?d \<and> static_cast_float ?d \<le> 360"
      by (intro static_cast_float_range_360) simp_all
    have "?d = v + 360 * real_of_int ?k" by simp
    then have "\<exists>k. static_cast_float ?d = static_cast_float (v + 360 * real_of_int k)"
      by metis
    with val range below show ?thesis
      by (intro exI [of _ "static_cast_float ?d"]) (simp add: SetMouth_value_eq)
  next
    case inside
    have val: "SetController_value bc v = Inr v"
      using rot wrap inside by (intro SetController_value_wrap_inside) simp_all
    with inside show ?thesis
      by (intro exI [of _ v]) (simp add: SetMouth_value_eq)
  qed
qed

theorem wrap_normalise_amended_witness:
  "\<exists>x. SetController_value wrapping_controller (- 90) = Inr x \<and>
      SetMouth_value wrapping_controller (- 90) = Inr x \<and>
      0 \<le> x \<and> x \<le> 360 \<and>
      (0 \<le> (- 90 :: real) \<and> (- 90 :: real) \<le> 360 \<longrightarrow> x = - 90) \<and>
      ((- 90 :: real) < 0 \<or> 360 < (- 90 :: real) \<longrightarrow>
         (\<exists>k. x = static_cast_float (- 90 + 360 * real_of_int k)))"
proof -
  have rot: "isRotational (bc_Type wrapping_controller)"
    by (simp add: wrapping_fields isRotational_8)
  have wrap: "bc_Start wrapping_controller + 359 < bc_End wrapping_controller"
    by (simp add: wrapping_fields)
  have bound: "\<bar>- 90 :: real\<bar> / 360 + 1 < 2147483648" by simp
  show ?thesis by (rule wrap_normalise_amended [OF rot wrap bound])
qed

text \<open>
  Two values: \<open>-90\<close> is reduced to 270, and \<open>-10^-10\<close> to the single precision
  rounding of \<open>360 - 10^-10\<close>, which is 360. So 360 is reached from other inputs than
  360 and the negative multiples of 360.
\<close>

lemma wrap_normalise_examples:
  "SetController_value wrapping_controller (- 90) = Inr 270 \<and>
   SetController_value wrapping_controller (- (1 / 10 ^ 10)) = Inr 360"
proof -
  have rot: "isRotational (bc_Type wrapping_controller)"
    by (simp add: wrapping_fields isRotational_8)
  have wrap: "bc_Start wrapping_controller + 359 < bc_End wrapping_controller"
    by (simp add: wrapping_fields)
  have "SetController_value wrapping_controller (- 90) =
      Inr (static_cast_float (- 90 + real_of_int (\<lfloor>- (- 90 :: real) / 360\<rfloor> + 1) * 360))"
    by (rule SetController_value_wrap_below [OF rot wrap]) simp_all
  then have first: "SetController_value wrapping_controller (- 90) = Inr 270"
    by (simp add: static_cast_float_270)
  have "SetController_value wrapping_controller (- (1 / 10 ^ 10)) =
      Inr (static_cast_float (- (1 / 10 ^ 10) +
        real_of_int (\<lfloor>- (- (1 / 10 ^ 10) :: real) / 360\<rfloor> + 1) * 360))"
    by (rule SetController_value_wrap_below [OF rot wrap]) simp_all
  moreover have "- (1 / 10 ^ 10) + real_of_int (\<lfloor>- (- (1 / 10 ^ 10) :: real) / 360\<rfloor> + 1) * 360 =
      (360 - 1 / 10 ^ 10 :: real)"
    by simp
  ultimately have "SetController_value wrapping_controller (- (1 / 10 ^ 10)) = Inr 360"
    by (simp only: static_cast_float_near_360)
  with first show ?thesis ..
qed

text \<open>
  Claim C5 as stated fails: the value 360 is neither above 360 nor below 0, so it is
  left at 360, outside \<open>[0, 360)\<close>.
\<close>

theorem wrap_normalise_counterexample:
  "isRotational (bc_Type wrapping_controller) \<and>
   bc_Start wrapping_controller + 359 < bc_End wrapping_controller \<and>
   SetController_value wrapping_controller 360 = Inr 360 \<and>
   SetMouth_value wrapping_controller 360 = Inr 360 \<and>
   \<not> ((360 :: real) < 360)"
  by (simp add: SetController_value_def SetMouth_value_def wrapping_fields isRotational_8)


text \<open>
  Claim C6, as the code has it. For a blend channel of type 0 the standard blender
  returns the empty optional, and \<open>SetBlending\<close> on an entity that uses the standard
  blender leaves the entity, and so the blend byte and the blend value, unchanged.
\<close>

theorem blend_absent_amended:
  assumes "0 \<le> b" and "b < STUDIO_MAX_BLENDERS" and "bd_Type (BlendData sd (nat b)) = 0"
  shows "StandardBlender_CalculateBlend sd b v = Inr None \<and>
    (blender s = StandardBlender \<and> editableModel s = Some m \<and> 0 \<le> sequence s \<and>
     sequence s < int (length (Sequences m)) \<and> Sequences m ! nat (sequence s) = sd \<longrightarrow>
     SetBlending s b v = Inr s)"
proof -
  have absent: "StandardBlender_CalculateBlend sd b v = Inr None"
    using assms by (simp add: StandardBlender_CalculateBlend_def)
  then show ?thesis
    using assms(1,2) by (simp add: SetBlending_def CalculateBlend_def)
qed

theorem blend_absent_amended_witness:
  "StandardBlender_CalculateBlend example_sequence 0 30 = Inr None \<and>
   SetBlending example_entity 0 30 = Inr example_entity"
proof -
  have type0: "bd_Type (BlendData example_sequence (nat 0)) = 0"
    by (simp add: example_sequence_def)
  have "(0::int) \<le> 0" and "(0::int) < STUDIO_MAX_BLENDERS"
    by (simp_all add: STUDIO_MAX_BLENDERS_def)
  from blend_absent_amended [OF this type0, of 30 example_entity example_model]
  show ?thesis
    by (simp add: example_entity_def example_model_def)
qed

text \<open>
  Claim C6 as stated fails: the Counter-Strike blender does not look at the channel
  type. On a channel of type 0 it computes \<open>(180 + 0) / 360 * 255 = 127.5\<close>, and
  \<open>SetBlending\<close> stores the byte 127.
\<close>

theorem blend_absent_counterexample:
  "bd_Type (BlendData example_sequence 0) = 0 \<and>
   CalculateBlend (blender counter_strike_entity) example_sequence 0 0 = Inr (Some 127) \<and>
   SetBlending counter_strike_entity 0 0 =
     Inr (counter_strike_entity\<lparr>blending := (blending counter_strike_entity)(0 := 127),
            blendingValues := (blendingValues counter_strike_entity)(0 := 0)\<rparr>) \<and>
   blending (counter_strike_entity\<lparr>blending := (blending counter_strike_entity)(0 := 127),
            blendingValues := (blendingValues counter_strike_entity)(0 := 0)\<rparr>) 0 \<noteq>
     blending counter_strike_entity 0"
proof -
  have calc: "CalculateBlend CounterStrikeBlender example_sequence 0 0 = Inr (Some 127)"
    by (simp add: CalculateBlend_def CounterStrikeBlender_CalculateBlend_def
        SequenceBlendXIndex_def float_to_uint8_def)
  have fields: "blender counter_strike_entity = CounterStrikeBlender"
    "editableModel counter_strike_entity = Some example_model"
    "sequence counter_strike_entity = 0"
    "blending counter_strike_entity 0 = 0"
    by (simp_all add: counter_strike_entity_def example_entity_def)
  have "SetBlending counter_strike_entity 0 0 =
     Inr (counter_strike_entity\<lparr>blending := (blending counter_strike_entity)(0 := 127),
            blendingValues := (blendingValues counter_strike_entity)(0 := 0)\<rparr>)"
    by (simp add: SetBlending_def fields calc example_model_fields STUDIO_MAX_BLENDERS_def)
  then show ?thesis
    using calc fields by (simp add: example_sequence_def)
qed

text \<open>
  Claim C10. When no bone controller of the loaded model has the index \<open>c\<close>,
  \<open>SetController\<close> leaves the entity unchanged, and when none has the mouth index,
  \<open>SetMouth\<close> does: neither the encoded bytes nor the stored values are written.
\<close>

theorem unmatched_controller_unchanged:
  assumes "editableModel s = Some m"
  shows "((\<forall>bc \<in> set (BoneControllers m). bc_Index bc \<noteq> c) \<longrightarrow>
            SetController s c v = Inr s) \<and>
         ((\<forall>bc \<in> set (BoneControllers m). bc_Index bc \<noteq> STUDIO_MOUTH_CONTROLLER) \<longrightarrow>
            SetMouth s v = Inr s)"
proof (intro conjI impI)
  assume "\<forall>bc \<in> set (BoneControllers m). bc_Index bc \<noteq> c"
  then have "find (\<lambda>bc. bc_Index bc = c) (BoneControllers m) = None"
    by (simp add: find_None_iff)
  then show "SetController s c v = Inr s"
    using assms by (simp add: SetController_def)
next
  assume "\<forall>bc \<in> set (BoneControllers m). bc_Index bc \<noteq> STUDIO_MOUTH_CONTROLLER"
  then have "find (\<lambda>bc. bc_Index bc = STUDIO_MOUTH_CONTROLLER) (BoneControllers m) = None"
    by (simp add: find_None_iff)
  then show "SetMouth s v = Inr s"
    using assms by (simp add: SetMouth_def)
qed

theorem unmatched_controller_unchanged_witness:
  "SetController pitch_entity 2 30 = Inr pitch_entity \<and>
   SetMouth pitch_entity 30 = Inr pitch_entity"
proof -
  have m: "editableModel pitch_entity = Some pitch_model"
    by (simp add: pitch_entity_def)
  from unmatched_controller_unchanged [OF m, of 2 30]
  show ?thesis
    by (simp add: pitch_model_def pitch_controller_def STUDIO_MOUTH_CONTROLLER_def)
qed

section \<open>Chrome cache and shadow projection\<close>

lemma Chrome_cached_call:
  assumes "0 \<le> bone" and "bone < MAXSTUDIOBONES"
    and "chromeage r (nat bone) = modelsDrawnCount r"
  shows "Chrome glm_inverse r bone normal =
    Inr (r, Vec2 ((glm_dot normal (chromeright r (nat bone)) + 1) * (1 / 2))
                 ((glm_dot normal (chromeup r (nat bone)) + 1) * (1 / 2)))"
  using assms by (simp add: Chrome_def Let_def)

lemma Chrome_result:
  assumes "0 \<le> bone" and "bone < MAXSTUDIOBONES"
  shows "\<exists>r1. Chrome glm_inverse r bone normal =
      Inr (r1, Vec2 ((glm_dot normal (chromeright r1 (nat bone)) + 1) * (1 / 2))
                    ((glm_dot normal (chromeup r1 (nat bone)) + 1) * (1 / 2))) \<and>
    chromeage r1 (nat bone) = modelsDrawnCount r1 \<and>
    modelsDrawnCount r1 = modelsDrawnCount r"
proof (cases "chromeage r (nat bone) = modelsDrawnCount r")
  case True
  with assms show ?thesis by (simp add: Chrome_cached_call)
next
  case False
  with assms show ?thesis by (simp add: Chrome_def Let_def)
qed

text \<open>
  Claim C7. For a bone index inside the arrays, \<open>Chrome\<close> succeeds and does not change
  the draw counter; a second call for the same bone and normal, made after the viewer
  position has been changed and without a change of the draw counter, returns the
  coordinates of the first call and leaves the renderer as it is: the basis vectors of
  the bone are not computed again.
\<close>

theorem chrome_cached:
  assumes "0 \<le> bone" and "bone < MAXSTUDIOBONES"
  shows "\<exists>r1 c1. Chrome glm_inverse r bone normal = Inr (r1, c1) \<and>
      modelsDrawnCount r1 = modelsDrawnCount r \<and>
      Chrome glm_inverse (r1\<lparr>viewerOrigin := v'\<rparr>) bone normal =
        Inr (r1\<lparr>viewerOrigin := v'\<rparr>, c1)"
proof -
  obtain r1 where first: "Chrome glm_inverse r bone normal =
      Inr (r1, Vec2 ((glm_dot normal (chromeright r1 (nat bone)) + 1) * (1 / 2))
                    ((glm_dot normal (chromeup r1 (nat bone)) + 1) * (1 / 2)))"
    and stamp: "chromeage r1 (nat bone) = modelsDrawnCount r1"
    and count: "modelsDrawnCount r1 = modelsDrawnCount r"
    using Chrome_result [OF assms] by blast
  have "chromeage (r1\<lparr>viewerOrigin := v'\<rparr>) (nat bone) =
      modelsDrawnCount (r1\<lparr>viewerOrigin := v'\<rparr>)"
    using stamp by simp
  then have "Chrome glm_inverse (r1\<lparr>viewerOrigin := v'\<rparr>) bone normal =
      Inr (r1\<lparr>viewerOrigin := v'\<rparr>,
           Vec2 ((glm_dot normal (chromeright r1 (nat bone)) + 1) * (1 / 2))
                ((glm_dot normal (chromeup r1 (nat bone)) + 1) * (1 / 2)))"
    using Chrome_cached_call [OF assms, of "r1\<lparr>viewerOrigin := v'\<rparr>"] by simp
  with first count show ?thesis by blast
qed

theorem chrome_cached_witness:
  "\<exists>r1 c1. Chrome (\<lambda>m. m) example_renderer 0 (Vec3 0 0 1) = Inr (r1, c1) \<and>
      modelsDrawnCount r1 = modelsDrawnCount example_renderer \<and>
      Chrome (\<lambda>m. m) (r1\<lparr>viewerOrigin := Vec3 7 7 7\<rparr>) 0 (Vec3 0 0 1) =
        Inr (r1\<lparr>viewerOrigin := Vec3 7 7 7\<rparr>, c1)"
proof -
  have "(0::int) \<le> 0" and "(0::int) < MAXSTUDIOBONES" by (simp_all add: MAXSTUDIOBONES_def)
  then show ?thesis by (rule chrome_cached)
qed

lemma emittedVertices_append:
  "emittedVertices (cs @ ds) = emittedVertices cs @ emittedVertices ds"
  by (induction cs rule: emittedVertices.induct) simp_all

lemma stream_vertices:
  "InternalDrawShadows_stream r h n cmds = Inr out \<Longrightarrow>
   emittedVertices out =
     map (\<lambda>v. Vec3 (vec_x (xformverts r (nat v)) -
                      vec_x (lightvec r) * (vec_z (xformverts r (nat v)) - h))
                   (vec_y (xformverts r (nat v)) -
                      vec_y (lightvec r) * (vec_z (xformverts r (nat v)) - h))
                   (h + 1))
       (spec_streamVertices n cmds)"
  by (induction r h n cmds arbitrary: out rule: InternalDrawShadows_stream.induct)
    (auto simp add: Let_def split: if_splits sum.splits)

lemma meshes_vertices:
  "InternalDrawShadows_meshes r h ms = Inr (out, polys) \<Longrightarrow>
   emittedVertices out =
     map (\<lambda>v. Vec3 (vec_x (xformverts r (nat v)) -
                      vec_x (lightvec r) * (vec_z (xformverts r (nat v)) - h))
                   (vec_y (xformverts r (nat v)) -
                      vec_y (lightvec r) * (vec_z (xformverts r (nat v)) - h))
                   (h + 1))
       (concat (map (\<lambda>mesh. spec_streamVertices 0 (Triangles mesh)) ms))"
proof (induction ms arbitrary: out polys)
  case Nil
  then show ?case by simp
next
  case (Cons mesh ms)
  then show ?case
    by (auto simp add: emittedVertices_append stream_vertices split: sum.splits)
qed

lemma commands_glExec: "commands (glExec g c) = commands g @ [c]"
  by (induction g c rule: glExec.induct) simp_all

lemma commands_glRun: "commands (glRun g cs) = commands g @ cs"
  unfolding glRun_def by (induction cs arbitrary: g) (simp_all add: commands_glExec)


lemma stream_cong:
  assumes "xformverts r' = xformverts r" and "lightvec r' = lightvec r"
  shows "InternalDrawShadows_stream r' h n cmds = InternalDrawShadows_stream r h n cmds"
  using assms
  by (induction r h n cmds rule: InternalDrawShadows_stream.induct) (simp_all add: Let_def)

lemma meshes_cong:
  assumes "xformverts r' = xformverts r" and "lightvec r' = lightvec r"
  shows "InternalDrawShadows_meshes r' h ms = InternalDrawShadows_meshes r h ms"
  by (induction ms) (simp_all add: stream_cong [OF assms] split: sum.splits)

lemma InternalDrawShadows_gl:
  assumes "renderInfo r = Some ri" and "model r = Some mdl"
  shows "InternalDrawShadows (r\<lparr>gl := g\<rparr>) =
    (case InternalDrawShadows_meshes r (vec_z (ri_Origin ri)) (Meshes mdl) of
       Inl e \<Rightarrow> Inl e
     | Inr (out, p) \<Rightarrow> Inr (r\<lparr>gl := glRun g out\<rparr>, p))"
proof -
  have "InternalDrawShadows_meshes (r\<lparr>gl := g\<rparr>) h ms = InternalDrawShadows_meshes r h ms"
    for h ms
    by (rule meshes_cong) simp_all
  with assms show ?thesis
    by (simp add: InternalDrawShadows_def split: sum.splits)
qed

lemma emittedVertices_shadow_setup:
  "emittedVertices
     ([glDepthMask a, glDisable GL_TEXTURE_2D, glBlendFunc_SRC_ALPHA_ONE_MINUS_SRC_ALPHA,
       glEnable GL_BLEND, glColor4f c0 c1 c2 c3, glDepthFunc GL_LESS] @ out @
      [glDepthFunc GL_LEQUAL] @ (if t then [glEnable GL_TEXTURE_2D] else []) @
      [glDisable GL_BLEND, glColor4f 1 1 1 1, glDepthMask b]) = emittedVertices out"
  by (simp add: emittedVertices_append)

lemma DrawShadows_commands:
  assumes sm: "studioModel r = Some sm" and flag: "(ModelFlags sm AND EF_NOSHADELIGHT) = 0"
    and ri: "renderInfo r = Some ri" and mdl: "model r = Some mdl"
    and run: "DrawShadows r fixZFighting wireframe = Inr (r', polys)"
  shows "\<exists>out c0 c1 c2 c3. InternalDrawShadows_meshes r (vec_z (ri_Origin ri)) (Meshes mdl) =
        Inr (out, polys) \<and>
      commands (gl r') = commands (gl r) @
        ([glDepthMask (\<not> fixZFighting), glDisable GL_TEXTURE_2D,
          glBlendFunc_SRC_ALPHA_ONE_MINUS_SRC_ALPHA, glEnable GL_BLEND,
          glColor4f c0 c1 c2 c3, glDepthFunc GL_LESS] @ out @
         [glDepthFunc GL_LEQUAL] @
         (if texture2D (glExec (gl r) (glDepthMask (\<not> fixZFighting)))
          then [glEnable GL_TEXTURE_2D] else []) @
         [glDisable GL_BLEND, glColor4f 1 1 1 1, glDepthMask (depthWriteMask (gl r))])"
proof -
  let ?g2 = "glRun (glExec (gl r) (glDepthMask (\<not> fixZFighting)))
      [glDisable GL_TEXTURE_2D, glBlendFunc_SRC_ALPHA_ONE_MINUS_SRC_ALPHA, glEnable GL_BLEND,
       (if wireframe
        then glColor4f (vec_x (wireframeColor r)) (vec_y (wireframeColor r))
               (vec_z (wireframeColor r)) (ri_Transparency ri)
        else glColor4f 0 0 0 (1 / 2 * ri_Transparency ri)),
       glDepthFunc GL_LESS]"
  let ?tail = "[glDepthFunc GL_LEQUAL] @
      (if texture2D (glExec (gl r) (glDepthMask (\<not> fixZFighting)))
       then [glEnable GL_TEXTURE_2D] else []) @
      [glDisable GL_BLEND, glColor4f 1 1 1 1, glDepthMask (depthWriteMask (gl r))]"
  have unfold: "DrawShadows r fixZFighting wireframe =
      (case InternalDrawShadows (r\<lparr>gl := ?g2\<rparr>) of
         Inl e \<Rightarrow> Inl e
       | Inr (r1, p) \<Rightarrow> Inr (r1\<lparr>gl := glRun (gl r1) ?tail\<rparr>, p))"
    using sm flag ri by (simp add: DrawShadows_def Let_def)
  obtain r1 where inner: "InternalDrawShadows (r\<lparr>gl := ?g2\<rparr>) = Inr (r1, polys)"
    and r': "r' = r1\<lparr>gl := glRun (gl r1) ?tail\<rparr>"
  proof (cases "InternalDrawShadows (r\<lparr>gl := ?g2\<rparr>)")
    case (Inl e)
    with run unfold show ?thesis by simp
  next
    case (Inr res)
    obtain r1 p where res: "res = (r1, p)" by (cases res)
    from run unfold Inr res have "r' = r1\<lparr>gl := glRun (gl r1) ?tail\<rparr>" and "polys = p"
      by simp_all
    with Inr res that show ?thesis by simp
  qed
  have unfold_inner: "InternalDrawShadows (r\<lparr>gl := ?g2\<rparr>) =
      (case InternalDrawShadows_meshes r (vec_z (ri_Origin ri)) (Meshes mdl) of
         Inl e \<Rightarrow> Inl e
       | Inr (out, p) \<Rightarrow> Inr (r\<lparr>gl := glRun ?g2 out\<rparr>, p))"
    by (rule InternalDrawShadows_gl [OF ri mdl])
  obtain out where meshes: "InternalDrawShadows_meshes r (vec_z (ri_Origin ri)) (Meshes mdl) =
      Inr (out, polys)"
    and r1: "r1 = r\<lparr>gl := glRun ?g2 out\<rparr>"
  proof (cases "InternalDrawShadows_meshes r (vec_z (ri_Origin ri)) (Meshes mdl)")
    case (Inl e)
    with inner unfold_inner show ?thesis by simp
  next
    case (Inr res)
    obtain out p where res: "res = (out, p)" by (cases res)
    from inner unfold_inner Inr res have "r1 = r\<lparr>gl := glRun ?g2 out\<rparr>" and "polys = p"
      by simp_all
    with Inr res that show ?thesis by simp
  qed
  have "commands (gl r') = commands (gl r) @
      ([glDepthMask (\<not> fixZFighting), glDisable GL_TEXTURE_2D,
        glBlendFunc_SRC_ALPHA_ONE_MINUS_SRC_ALPHA, glEnable GL_BLEND,
        (if wireframe
         then glColor4f (vec_x (wireframeColor r)) (vec_y (wireframeColor r))
                (vec_z (wireframeColor r)) (ri_Transparency ri)
         else glColor4f 0 0 0 (1 / 2 * ri_Transparency ri)),
        glDepthFunc GL_LESS] @ out @ ?tail)"
    by (simp add: r' r1 commands_glRun commands_glExec)
  then have "\<exists>c0 c1 c2 c3. commands (gl r') = commands (gl r) @
      ([glDepthMask (\<not> fixZFighting), glDisable GL_TEXTURE_2D,
        glBlendFunc_SRC_ALPHA_ONE_MINUS_SRC_ALPHA, glEnable GL_BLEND,
        glColor4f c0 c1 c2 c3, glDepthFunc GL_LESS] @ out @ ?tail)"
    by (cases wireframe) (simp_all only: if_True if_False, blast+)
  with meshes show ?thesis by blast
qed

lemma example_renderer_fields:
  "studioModel example_renderer = Some example_model"
  "model example_renderer = Some \<lparr>Meshes = [\<lparr>NumTriangles = 1,
        Triangles = [3, 0, 0, 0, 0, 1, 0, 0, 0, 2, 0, 0, 0, 0]\<rparr>]\<rparr>"
  "gl example_renderer = \<lparr>depthWriteMask = True, texture2D = True, commands = []\<rparr>"
  "lightvec example_renderer = Vec3 (1 / 2) 0 (- 1)"
  "xformverts example_renderer i = Vec3 (real i) 2 (12 + real i)"
  by (simp_all add: example_renderer_def)

lemma example_shadow_run:
  "DrawShadows example_renderer False False =
     Inr (example_renderer\<lparr>gl := \<lparr>depthWriteMask = True, texture2D = True,
            commands = example_shadow_commands\<rparr>\<rparr>, 1)"
  by (simp add: DrawShadows_def InternalDrawShadows_def example_renderer_def example_model_def
      EF_NOSHADELIGHT_def MAXSTUDIOVERTS_def glRun_def example_shadow_commands_def
      eval_nat_numeral Let_def)

text \<open>
  Claim C8, as the code has it. For a model flagged \<^verbatim>\<open>EF_NOSHADELIGHT\<close>, \<open>DrawShadows\<close>
  returns 0 polygons and leaves the renderer, and so the OpenGL state and call list,
  unchanged. For a model not flagged, when the shadow pass succeeds, it only appends
  OpenGL calls, and the vertices among the appended calls are, in order, the shadow
  points of the transformed vertices that the triangle command streams of the meshes
  refer to: each lies on the plane one unit above the origin's Z, and the light
  direction's X and Y times the vertex's height over the origin are \<^emph>\<open>subtracted\<close> from
  the vertex's X and Y.
\<close>

theorem shadow_projection_amended:
  assumes sm: "studioModel r = Some sm"
  shows "((ModelFlags sm AND EF_NOSHADELIGHT) \<noteq> 0 \<longrightarrow>
            DrawShadows r fixZFighting wireframe = Inr (r, 0)) \<and>
         ((ModelFlags sm AND EF_NOSHADELIGHT) = 0 \<and> renderInfo r = Some ri \<and>
          model r = Some mdl \<and> DrawShadows r fixZFighting wireframe = Inr (r', polys) \<longrightarrow>
            take (length (commands (gl r))) (commands (gl r')) = commands (gl r) \<and>
            emittedVertices (drop (length (commands (gl r))) (commands (gl r'))) =
              map (\<lambda>v. Vec3 (vec_x (xformverts r (nat v)) -
                               vec_x (lightvec r) *
                                 (vec_z (xformverts r (nat v)) - vec_z (ri_Origin ri)))
                            (vec_y (xformverts r (nat v)) -
                               vec_y (lightvec r) *
                                 (vec_z (xformverts r (nat v)) - vec_z (ri_Origin ri)))
                            (vec_z (ri_Origin ri) + 1))
                (concat (map (\<lambda>mesh. spec_streamVertices 0 (Triangles mesh)) (Meshes mdl))))"
proof (intro conjI impI)
  assume "(ModelFlags sm AND EF_NOSHADELIGHT) \<noteq> 0"
  then show "DrawShadows r fixZFighting wireframe = Inr (r, 0)"
    using sm by (simp add: DrawShadows_def)
next
  assume a: "(ModelFlags sm AND EF_NOSHADELIGHT) = 0 \<and> renderInfo r = Some ri \<and>
      model r = Some mdl \<and> DrawShadows r fixZFighting wireframe = Inr (r', polys)"
  then obtain out c0 c1 c2 c3 where
    meshes: "InternalDrawShadows_meshes r (vec_z (ri_Origin ri)) (Meshes mdl) = Inr (out, polys)"
    and cmds: "commands (gl r') = commands (gl r) @
        ([glDepthMask (\<not> fixZFighting), glDisable GL_TEXTURE_2D,
          glBlendFunc_SRC_ALPHA_ONE_MINUS_SRC_ALPHA, glEnable GL_BLEND,
          glColor4f c0 c1 c2 c3, glDepthFunc GL_LESS] @ out @
         [glDepthFunc GL_LEQUAL] @
         (if texture2D (glExec (gl r) (glDepthMask (\<not> fixZFighting)))
          then [glEnable GL_TEXTURE_2D] else []) @
         [glDisable GL_BLEND, glColor4f 1 1 1 1, glDepthMask (depthWriteMask (gl r))])"
    using DrawShadows_commands [OF sm, of ri mdl fixZFighting wireframe r' polys] by blast
  show "take (length (commands (gl r))) (commands (gl r')) = commands (gl r)"
    by (simp only: cmds append_eq_conv_conj [symmetric, of _ _ "commands (gl r)"] take_all
        append_take_drop_id take_append) simp
  have "drop (length (commands (gl r))) (commands (gl r')) =
      [glDepthMask (\<not> fixZFighting), glDisable GL_TEXTURE_2D,
       glBlendFunc_SRC_ALPHA_ONE_MINUS_SRC_ALPHA, glEnable GL_BLEND,
       glColor4f c0 c1 c2 c3, glDepthFunc GL_LESS] @ out @
      [glDepthFunc GL_LEQUAL] @
      (if texture2D (glExec (gl r) (glDepthMask (\<not> fixZFighting)))
       then [glEnable GL_TEXTURE_2D] else []) @
      [glDisable GL_BLEND, glColor4f 1 1 1 1, glDepthMask (depthWriteMask (gl r))]"
    by (simp only: cmds drop_append) simp
  then have "emittedVertices (drop (length (commands (gl r))) (commands (gl r'))) =
      emittedVertices out"
    by (simp only: emittedVertices_shadow_setup)
  then show "emittedVertices (drop (length (commands (gl r))) (commands (gl r'))) =
      map (\<lambda>v. Vec3 (vec_x (xformverts r (nat v)) -
                       vec_x (lightvec r) *
                         (vec_z (xformverts r (nat v)) - vec_z (ri_Origin ri)))
                    (vec_y (xformverts r (nat v)) -
                       vec_y (lightvec r) *
                         (vec_z (xformverts r (nat v)) - vec_z (ri_Origin ri)))
                    (vec_z (ri_Origin ri) + 1))
        (concat (map (\<lambda>mesh. spec_streamVertices 0 (Triangles mesh)) (Meshes mdl)))"
    using meshes_vertices [OF meshes] by simp
qed

theorem shadow_projection_amended_witness:
  "DrawShadows no_shade_renderer False False = Inr (no_shade_renderer, 0) \<and>
   DrawShadows example_renderer False False =
     Inr (example_renderer\<lparr>gl := \<lparr>depthWriteMask = True, texture2D = True,
            commands = example_shadow_commands\<rparr>\<rparr>, 1) \<and>
   emittedVertices example_shadow_commands =
     [Vec3 (0 - 1 / 2 * (12 - 10)) (2 - 0 * (12 - 10)) (10 + 1),
      Vec3 (1 - 1 / 2 * (13 - 10)) (2 - 0 * (13 - 10)) (10 + 1),
      Vec3 (2 - 1 / 2 * (14 - 10)) (2 - 0 * (14 - 10)) (10 + 1)]"
proof -
  let ?ri = "\<lparr>ri_Origin = Vec3 0 0 10, ri_Angles = Vec3 0 0 0,
        ri_Scale = Vec3 1 1 1, ri_Model = Some example_model, ri_Transparency = 1,
        ri_Sequence = 0, ri_Frame = 0, ri_Bodygroup = 0, ri_Skin = 0\<rparr>"
  let ?mdl = "\<lparr>Meshes = [\<lparr>NumTriangles = 1,
        Triangles = [3, 0, 0, 0, 0, 1, 0, 0, 0, 2, 0, 0, 0, 0]\<rparr>]\<rparr>"
  let ?r' = "example_renderer\<lparr>gl := \<lparr>depthWriteMask = True, texture2D = True,
            commands = example_shadow_commands\<rparr>\<rparr>"
  have sm: "studioModel no_shade_renderer = Some (example_model\<lparr>ModelFlags := 256\<rparr>)"
    by (simp add: no_shade_renderer_def)
  have flagged: "(ModelFlags (example_model\<lparr>ModelFlags := 256\<rparr>) AND EF_NOSHADELIGHT) \<noteq> 0"
    by (simp add: EF_NOSHADELIGHT_def)
  have skipped: "DrawShadows no_shade_renderer False False = Inr (no_shade_renderer, 0)"
    using shadow_projection_amended [OF sm, THEN conjunct1, THEN mp, OF flagged] .
  have sm': "studioModel example_renderer = Some example_model"
    by (rule example_renderer_fields)
  have hyp: "(ModelFlags example_model AND EF_NOSHADELIGHT) = 0 \<and>
      renderInfo example_renderer = Some ?ri \<and> model example_renderer = Some ?mdl \<and>
      DrawShadows example_renderer False False = Inr (?r', 1)"
    using example_shadow_run by (simp add: example_renderer_def example_model_def)
  have "emittedVertices (drop (length (commands (gl example_renderer))) (commands (gl ?r'))) =
      map (\<lambda>v. Vec3 (vec_x (xformverts example_renderer (nat v)) -
                       vec_x (lightvec example_renderer) *
                         (vec_z (xformverts example_renderer (nat v)) - vec_z (ri_Origin ?ri)))
                    (vec_y (xformverts example_renderer (nat v)) -
                       vec_y (lightvec example_renderer) *
                         (vec_z (xformverts example_renderer (nat v)) - vec_z (ri_Origin ?ri)))
                    (vec_z (ri_Origin ?ri) + 1))
        (concat (map (\<lambda>mesh. spec_streamVertices 0 (Triangles mesh)) (Meshes ?mdl)))"
    using shadow_projection_amended [OF sm', THEN conjunct2, THEN mp, OF hyp] by (rule conjunct2)
  then have "emittedVertices example_shadow_commands =
     [Vec3 (0 - 1 / 2 * (12 - 10)) (2 - 0 * (12 - 10)) (10 + 1),
      Vec3 (1 - 1 / 2 * (13 - 10)) (2 - 0 * (13 - 10)) (10 + 1),
      Vec3 (2 - 1 / 2 * (14 - 10)) (2 - 0 * (14 - 10)) (10 + 1)]"
    by (simp add: example_renderer_fields eval_nat_numeral)
  with skipped example_shadow_run show ?thesis by (simp only:)
qed

text \<open>
  Claim C8 as stated fails, the offset being added there: for the renderer of the
  example, whose model is not flagged, with the origin at height 10 and the light
  direction \<open>(1/2, 0, -1)\<close>, the shadow pass emits \<open>(-1, 2, 11)\<close> for the vertex
  \<open>(0, 2, 12)\<close>, where the projection in the words of the specification gives
  \<open>(1, 2, 11)\<close>; the other two vertices differ in the same way.
\<close>

theorem shadow_projection_counterexample:
  "studioModel example_renderer = Some example_model \<and>
   (ModelFlags example_model AND EF_NOSHADELIGHT) = 0 \<and>
   map_option (\<lambda>ri. vec_z (ri_Origin ri)) (renderInfo example_renderer) = Some 10 \<and>
   DrawShadows example_renderer False False =
     Inr (example_renderer\<lparr>gl := \<lparr>depthWriteMask = True, texture2D = True,
            commands = example_shadow_commands\<rparr>\<rparr>, 1) \<and>
   emittedVertices example_shadow_commands =
     [Vec3 (- 1) 2 11, Vec3 (- (1 / 2)) 2 11, Vec3 0 2 11] \<and>
   map (\<lambda>v. spec_shadowPoint (lightvec example_renderer) 10 (xformverts example_renderer v))
     [0, 1, 2] = [Vec3 1 2 11, Vec3 (5 / 2) 2 11, Vec3 4 2 11] \<and>
   emittedVertices example_shadow_commands \<noteq>
     map (\<lambda>v. spec_shadowPoint (lightvec example_renderer) 10 (xformverts example_renderer v))
       [0, 1, 2]"
proof -
  have fields: "studioModel example_renderer = Some example_model \<and>
      (ModelFlags example_model AND EF_NOSHADELIGHT) = 0 \<and>
      map_option (\<lambda>ri. vec_z (ri_Origin ri)) (renderInfo example_renderer) = Some 10"
    by (simp add: example_renderer_def example_model_def EF_NOSHADELIGHT_def)
  have emitted: "emittedVertices example_shadow_commands =
      [Vec3 (- 1) 2 11, Vec3 (- (1 / 2)) 2 11, Vec3 0 2 11]"
    by (simp add: example_shadow_commands_def)
  have stated: "map (\<lambda>v. spec_shadowPoint (lightvec example_renderer) 10
        (xformverts example_renderer v)) [0, 1, 2] =
      [Vec3 1 2 11, Vec3 (5 / 2) 2 11, Vec3 4 2 11]"
    by (simp add: spec_shadowPoint_def example_renderer_fields)
  have "[Vec3 (- 1) 2 11, Vec3 (- (1 / 2)) 2 11, Vec3 0 2 11] \<noteq>
      [Vec3 1 2 11, Vec3 (5 / 2) 2 11, Vec3 (4::real) 2 11]"
    by simp
  with fields example_shadow_run emitted stated show ?thesis by (simp only:) simp
qed

section \<open>Operations without a model\<close>

text \<open>
  Claim C9 at the failing input: without a model, \<open>SetSequence\<close> and \<open>GetNumFrames\<close>
  dereference the null pointer.
\<close>

theorem null_model_dereferenced:
  "editableModel unloaded_entity = None \<and>
   SetSequence unloaded_entity 0 = Inl NullDereference \<and>
   GetNumFrames unloaded_entity = Inl NullDereference"
  by (simp add: unloaded_entity_def example_entity_def SetSequence_def GetNumFrames_def)

text \<open>
  Only a negative current sequence keeps \<open>GetNumFrames\<close> from the dereference: the test
  \<^verbatim>\<open>_sequence < 0\<close> comes before it.
\<close>

lemma GetNumFrames_negative_sequence:
  assumes "sequence s < 0"
  shows "GetNumFrames s = Inr 0"
  using assms by (simp add: GetNumFrames_def)

text \<open>
  The other entity operations test the pointer first and return without a change, and
  \<open>DrawModel\<close> logs and returns 0 for a null model without reaching the drawing.
\<close>

lemma null_model_guarded:
  assumes "editableModel s = None"
  shows "AdvanceFrame now s deltaTime maximum = Inr (s, 0)"
    and "SetFrame now s f = Inr s"
    and "GetAnimationEvent s event start end' index allowClientEvents = (0, event)"
    and "DispatchAnimEvents s allowClientEvents = (s, [])"
    and "SetController s c v = Inr s"
    and "SetMouth s v = Inr s"
    and "SetBlending s b v = Inr s"
  using assms
  by (simp_all add: AdvanceFrame_def SetFrame_def GetAnimationEvent_def DispatchAnimEvents_def
      SetController_def SetMouth_def SetBlending_def)

lemma DrawModel_null_model:
  assumes "ri_Model renderInfo0 = None"
  shows "DrawModel drawBody r renderInfo0 flags =
    Inr (r\<lparr>renderInfo := Some renderInfo0,
           logged := logged r @ [''Called with null model!'']\<rparr>, 0)"
  using assms by (simp add: DrawModel_def)

end
